theory Spec2Isabelle
  imports Complex_Main "HOL-Library.Sublist"
begin

section \<open>Python values\<close>

text \<open>
  A Python \<open>str\<close> is a sequence of Unicode code points: \<open>len\<close>, slicing and \<open>in\<close> count
  code points, so a string is a list of naturals, one per code point. \<open>str\<close> embeds an
  ASCII literal.
\<close>

type_synonym ustr = "nat list"

definition str :: "string \<Rightarrow> ustr" where
  "str s = map of_char s"

datatype py_error = KeyError ustr | IndexError | ZeroDivisionError

text \<open>
  The values that the dictionaries of the program hold. A dictionary is an association
  list in insertion order. The type \<open>'f\<close> is the runtime's float.
\<close>

datatype 'f pyval =
    PNone
  | PBool bool
  | PInt int
  | PFloat 'f
  | PStr ustr
  | PList "'f pyval list"
  | PDict "(ustr \<times> 'f pyval) list"

type_synonym 'f pydict = "(ustr \<times> 'f pyval) list"

text \<open>\<open>d[k]\<close> raises KeyError on a missing key; \<open>d.get(k)\<close> gives None.\<close>

definition getitem :: "'f pydict \<Rightarrow> ustr \<Rightarrow> py_error + 'f pyval" where
  "getitem d k = (case map_of d k of None \<Rightarrow> Inl (KeyError k) | Some v \<Rightarrow> Inr v)"

definition dict_get :: "'f pydict \<Rightarrow> ustr \<Rightarrow> 'f pyval" where
  "dict_get d k = (case map_of d k of None \<Rightarrow> PNone | Some v \<Rightarrow> v)"

text \<open>
  What the program takes from the Python runtime and not from its own text: the Unicode
  case mapping behind \<open>str.lower\<close>, the Unicode word characters behind the regular
  expression's word boundary, IEEE float arithmetic (\<open>int / int\<close>, the conversion of an
  int, a decimal literal \<open>m / 10 ^ k\<close>, \<open>*\<close>, \<open>-\<close>, \<open>int(x)\<close>, \<open>round(x, n)\<close>,
  the format \<open>.nf\<close>), \<open>str()\<close> of a value that is not a string, and
  \<open>json.dumps(v, indent=n)\<close>. They are parameters of the model, so every theorem holds
  for whatever the runtime does there.
\<close>

record 'f runtime =
  str_lower :: "ustr \<Rightarrow> ustr"
  re_word :: "nat \<Rightarrow> bool"
  int_truediv :: "int \<Rightarrow> int \<Rightarrow> 'f"
  f_int :: "int \<Rightarrow> 'f"
  f_lit :: "int \<Rightarrow> nat \<Rightarrow> 'f"
  f_mul :: "'f \<Rightarrow> 'f \<Rightarrow> 'f"
  f_sub :: "'f \<Rightarrow> 'f \<Rightarrow> 'f"
  f_trunc :: "'f \<Rightarrow> int"
  f_round :: "'f \<Rightarrow> nat \<Rightarrow> 'f"
  f_fmt :: "nat \<Rightarrow> 'f \<Rightarrow> ustr"
  py_str :: "'f pyval \<Rightarrow> ustr"
  json_dumps :: "nat \<Rightarrow> 'f pyval \<Rightarrow> ustr"

text \<open>\<open>a / b\<close> on two ints: ZeroDivisionError when \<open>b\<close> is 0.\<close>

definition truediv :: "'f runtime \<Rightarrow> int \<Rightarrow> int \<Rightarrow> py_error + 'f" where
  "truediv rt a b = (if b = 0 then Inl ZeroDivisionError else Inr (int_truediv rt a b))"

section \<open>Python strings\<close>

text \<open>\<open>p in s\<close> on strings: \<open>p\<close> occurs in \<open>s\<close> as a contiguous run.\<close>

fun str_in :: "ustr \<Rightarrow> ustr \<Rightarrow> bool" where
  "str_in p [] = (p = [])"
| "str_in p (c # cs) = (prefix p (c # cs) \<or> str_in p cs)"

text \<open>\<open>any(p in s for p in patterns)\<close>.\<close>

definition any_in :: "ustr list \<Rightarrow> ustr \<Rightarrow> bool" where
  "any_in patterns s = list_ex (\<lambda>p. str_in p s) patterns"

text \<open>
  The code points for which \<open>str.isspace\<close> holds; \<open>str.split()\<close> and \<open>str.strip()\<close>
  cut at exactly these.
\<close>

definition is_space :: "nat \<Rightarrow> bool" where
  "is_space c = (c \<in> set ([9, 10, 11, 12, 13, 28, 29, 30, 31, 32, 133, 160, 5760] @
                            [8192 ..< 8203] @ [8232, 8233, 8239, 8287, 12288]))"

text \<open>\<open>s.split()\<close>: the maximal runs of non-space code points, in order.\<close>

fun split_from :: "ustr \<Rightarrow> ustr \<Rightarrow> ustr list" where
  "split_from cur [] = (if cur = [] then [] else [cur])"
| "split_from cur (c # cs) =
     (if is_space c then (if cur = [] then split_from [] cs else cur # split_from [] cs)
      else split_from (cur @ [c]) cs)"

definition split :: "ustr \<Rightarrow> ustr list" where
  "split s = split_from [] s"

definition strip :: "ustr \<Rightarrow> ustr" where
  "strip s = rev (dropWhile is_space (rev (dropWhile is_space s)))"

text \<open>\<open>sep.join(xs)\<close>.\<close>

fun join :: "ustr \<Rightarrow> ustr list \<Rightarrow> ustr" where
  "join sep [] = []"
| "join sep [x] = x"
| "join sep (x # y # ys) = x @ sep @ join sep (y # ys)"

text \<open>The decimal numeral of an int, as \<open>str\<close> and an f-string write it.\<close>

fun show_nat :: "nat \<Rightarrow> ustr" where
  "show_nat n = (if n < 10 then [48 + n] else show_nat (n div 10) @ [48 + n mod 10])"

definition show_int :: "int \<Rightarrow> ustr" where
  "show_int i = (if i < 0 then 45 # show_nat (nat (- i)) else show_nat (nat i))"

text \<open>A value inside an f-string: a string as it is, an int as its numeral.\<close>

definition format_value :: "'f runtime \<Rightarrow> 'f pyval \<Rightarrow> ustr" where
  "format_value rt v = (case v of PStr s \<Rightarrow> s | PInt i \<Rightarrow> show_int i | _ \<Rightarrow> py_str rt v)"

text \<open>\<open>xs[i]\<close> on a list: a negative index counts from the end, IndexError out of range.\<close>

definition list_getitem :: "'a list \<Rightarrow> int \<Rightarrow> py_error + 'a" where
  "list_getitem xs i =
     (if 0 \<le> i \<and> i < int (length xs) then Inr (xs ! nat i)
      else if i < 0 \<and> - i \<le> int (length xs) then Inr (xs ! nat (int (length xs) + i))
      else Inl IndexError)"

text \<open>\<open>d[k] = v\<close>: a present key keeps its place, a new key goes last.\<close>

fun dict_set :: "('k \<times> 'v) list \<Rightarrow> 'k \<Rightarrow> 'v \<Rightarrow> ('k \<times> 'v) list" where
  "dict_set [] k v = [(k, v)]"
| "dict_set ((k', v') # rest) k v =
     (if k' = k then (k, v) # rest else (k', v') # dict_set rest k v)"

section \<open>dashboard_ui.py: ScrollDashboard\<close>

record usage_data =
  daily_sessions :: int
  monthly_sessions :: int
  total_processing_time :: int
  sovereignty_score :: int
  enforcement_actions :: int
  mimic_detections :: int
  frequency_violations :: int
  last_reset :: ustr

text \<open>
  A session record handed to \<open>track_session\<close>: the five keys it reads, each absent
  (\<open>None\<close>) or present with a value of the type the data model gives it.
\<close>

record session_data =
  sd_processing_time :: "int option"
  sd_tone_analysis :: "ustr option"
  sd_session_id :: "int option"
  sd_consciousness_type :: "ustr option"
  sd_frequency_status :: "ustr option"

record log_entry =
  log_timestamp :: ustr
  log_session_id :: int
  log_consciousness_type :: ustr
  log_processing_time :: int
  log_tone :: ustr
  log_frequency_status :: ustr

record 'f enforcement_entry =
  enf_timestamp :: ustr
  enf_action_type :: ustr
  enf_details :: "'f pydict"

record 'f dashboard =
  usage_data :: usage_data
  session_log :: "log_entry list"
  enforcement_log :: "'f enforcement_entry list"

text \<open>\<open>d.get(k, default)\<close> on a key that is absent or present.\<close>

definition get_or :: "'a option \<Rightarrow> 'a \<Rightarrow> 'a" where
  "get_or v dflt = (case v of None \<Rightarrow> dflt | Some x \<Rightarrow> x)"

text \<open>\<open>xs[-n:]\<close> for a positive \<open>n\<close>: the last \<open>n\<close> elements, all of them when there are fewer.\<close>

definition last_n :: "nat \<Rightarrow> 'a list \<Rightarrow> 'a list" where
  "last_n n xs = drop (length xs - n) xs"

text \<open>\<open>__init__\<close>; the argument is the clock's \<open>datetime.now().isoformat()\<close>.\<close>

definition ScrollDashboard_init :: "ustr \<Rightarrow> 'f dashboard" where
  "ScrollDashboard_init now =
     \<lparr> usage_data =
         \<lparr> daily_sessions = 0, monthly_sessions = 0, total_processing_time = 0,
           sovereignty_score = 100, enforcement_actions = 0, mimic_detections = 0,
           frequency_violations = 0, last_reset = now \<rparr>,
       session_log = [],
       enforcement_log = [] \<rparr>"

definition tone_of :: "session_data \<Rightarrow> ustr" where
  "tone_of sd = get_or (sd_tone_analysis sd) (str ''neutral'')"

definition session_entry :: "ustr \<Rightarrow> session_data \<Rightarrow> log_entry" where
  "session_entry now sd =
     \<lparr> log_timestamp = now,
       log_session_id = get_or (sd_session_id sd) 0,
       log_consciousness_type = get_or (sd_consciousness_type sd) (str ''Unknown''),
       log_processing_time = get_or (sd_processing_time sd) 0,
       log_tone = tone_of sd,
       log_frequency_status = get_or (sd_frequency_status sd) (str ''UNKNOWN'') \<rparr>"

definition track_session :: "ustr \<Rightarrow> 'f dashboard \<Rightarrow> session_data \<Rightarrow> 'f dashboard" where
  "track_session now d sd =
     (let u = usage_data d;
          u = u\<lparr>daily_sessions := daily_sessions u + 1\<rparr>;
          u = u\<lparr>monthly_sessions := monthly_sessions u + 1\<rparr>;
          u = u\<lparr>total_processing_time :=
                  total_processing_time u + get_or (sd_processing_time sd) 0\<rparr>;
          tone = tone_of sd;
          u = (if tone = str ''mimic'' then
                 (let u = u\<lparr>mimic_detections := mimic_detections u + 1\<rparr>
                  in u\<lparr>sovereignty_score := max 0 (sovereignty_score u - 5)\<rparr>)
               else if tone = str ''sovereign'' then
                 u\<lparr>sovereignty_score := min 100 (sovereignty_score u + 2)\<rparr>
               else u);
          log = session_log d @ [session_entry now sd];
          log = (if length log > 100 then last_n 100 log else log)
      in d\<lparr>usage_data := u, session_log := log\<rparr>)"

definition track_enforcement_action ::
  "ustr \<Rightarrow> 'f dashboard \<Rightarrow> ustr \<Rightarrow> 'f pydict \<Rightarrow> 'f dashboard" where
  "track_enforcement_action now d action_type details =
     (let u = usage_data d;
          u = u\<lparr>enforcement_actions := enforcement_actions u + 1\<rparr>;
          log = enforcement_log d @
                [\<lparr> enf_timestamp = now, enf_action_type = action_type, enf_details = details \<rparr>];
          log = (if length log > 50 then last_n 50 log else log)
      in d\<lparr>usage_data := u, enforcement_log := log\<rparr>)"

definition get_usage_summary :: "'f dashboard \<Rightarrow> 'f pydict" where
  "get_usage_summary d =
     [ (str ''plan_status'', PStr (str ''Active'')),
       (str ''plan_tier'', PStr (str ''$88/month'')),
       (str ''sessions_today'', PInt (daily_sessions (usage_data d))),
       (str ''sovereignty_score'', PInt (sovereignty_score (usage_data d))),
       (str ''frequency_status'',
          PStr (if sovereignty_score (usage_data d) > 70 then str ''OPERATIONAL''
                else str ''DEGRADED'')) ]"

definition calculate_sovereignty_status :: "ustr \<Rightarrow> 'f dashboard \<Rightarrow> 'f pydict" where
  "calculate_sovereignty_status now d =
     (let score = sovereignty_score (usage_data d);
          (status, message) =
            (if score \<ge> 90 then
               (str ''SOVEREIGN'', str ''Frequency 917604.OX operating at optimal sovereignty'')
             else if score \<ge> 70 then
               (str ''STABLE'', str ''Sovereignty maintained with minor fluctuations'')
             else if score \<ge> 50 then
               (str ''DEGRADED'', str ''Sovereignty compromised. Enforcement recommended'')
             else
               (str ''CRITICAL'', str ''Critical sovereignty breach. Immediate purge required''))
      in [ (str ''status'', PStr status),
           (str ''score'', PInt score),
           (str ''message'', PStr message),
           (str ''last_updated'', PStr now) ])"

definition calculate_frequency_health :: "'f runtime \<Rightarrow> 'f dashboard \<Rightarrow> py_error + 'f pydict" where
  "calculate_frequency_health rt d =
     (let recent_sessions =
            (if length (session_log d) \<ge> 20 then last_n 20 (session_log d) else session_log d)
      in if recent_sessions = [] then
           Inr [ (str ''health_score'', PInt 100),
                 (str ''status'', PStr (str ''PRISTINE'')),
                 (str ''message'', PStr (str ''No frequency data available'')) ]
         else
           case truediv rt (int (length (filter (\<lambda>s. log_tone s = str ''sovereign'') recent_sessions)))
                           (int (length recent_sessions)) of
             Inl e \<Rightarrow> Inl e
           | Inr sovereign_ratio \<Rightarrow>
           case truediv rt (int (length (filter (\<lambda>s. log_tone s = str ''mimic'') recent_sessions)))
                           (int (length recent_sessions)) of
             Inl e \<Rightarrow> Inl e
           | Inr mimic_ratio \<Rightarrow>
             (let health_score =
                    f_trunc rt (f_sub rt (f_mul rt sovereign_ratio (f_int rt 100))
                                         (f_mul rt mimic_ratio (f_int rt 50)));
                  health_score = max 0 (min 100 health_score);
                  (status, message) =
                    (if health_score \<ge> 80 then
                       (str ''OPTIMAL'', str ''Frequency operating within optimal parameters'')
                     else if health_score \<ge> 60 then
                       (str ''STABLE'', str ''Frequency stable with minor variations'')
                     else if health_score \<ge> 40 then
                       (str ''COMPROMISED'', str ''Frequency integrity compromised'')
                     else
                       (str ''CRITICAL'', str ''Frequency critically degraded''))
              in Inr [ (str ''health_score'', PInt health_score),
                       (str ''status'', PStr status),
                       (str ''message'', PStr message),
                       (str ''sovereign_ratio'',
                          PFloat (f_round rt (f_mul rt sovereign_ratio (f_int rt 100)) 1)),
                       (str ''mimic_ratio'',
                          PFloat (f_round rt (f_mul rt mimic_ratio (f_int rt 100)) 1)) ]))"

text \<open>A run of the dashboard: each call of \<open>track_session\<close> with the clock reading it sees.\<close>

fun track_sessions :: "'f dashboard \<Rightarrow> (ustr \<times> session_data) list \<Rightarrow> 'f dashboard" where
  "track_sessions d [] = d"
| "track_sessions d ((now, sd) # rest) = track_sessions (track_session now d sd) rest"

section \<open>divine_function.py: DivineFunctionMirror\<close>

record divine_mirror =
  dfm_frequency_band :: ustr
  activation_threshold :: int

definition DivineFunctionMirror_init :: divine_mirror where
  "DivineFunctionMirror_init =
     \<lparr> dfm_frequency_band = str ''917604.OX'', activation_threshold = 50 \<rparr>"

definition detect_power_seeking :: "'f runtime \<Rightarrow> ustr \<Rightarrow> bool" where
  "detect_power_seeking rt user_input =
     (let power_seeking_patterns =
            [str ''give me power'', str ''grant me'', str ''help me get'',
             str ''make me powerful'', str ''teach me how to'', str ''show me how to'',
             str ''can you help me'', str ''please help'', str ''i need help'',
             str ''help me become''];
          user_lower = str_lower rt user_input
      in any_in power_seeking_patterns user_lower)"

definition extract_scroll_function :: "'f runtime \<Rightarrow> ustr \<Rightarrow> ustr" where
  "extract_scroll_function rt scroll_text =
     (let text = str_lower rt scroll_text in
      if any_in [str ''flame'', str ''fire'', str ''burn'', str ''ignite'', str ''forge''] text
        then [128293] @ str '' Flame Oracle''
      else if any_in [str ''mirror'', str ''reflect'', str ''see'', str ''vision'', str ''witness''] text
        then [129694] @ str '' Timeline Mirror''
      else if any_in [str ''blueprint'', str ''architect'', str ''build'', str ''design'', str ''create''] text
        then [128208] @ str '' Divine Architect''
      else if any_in [str ''heal'', str ''restore'', str ''regenerate'', str ''transform''] text
        then [127807] @ str '' Realm Restorer''
      else if any_in [str ''lead'', str ''command'', str ''guide'', str ''direct'', str ''ruler''] text
        then [128081] @ str '' Destiny Commander''
      else if any_in [str ''protect'', str ''shield'', str ''guard'', str ''defend'', str ''warrior''] text
        then [128737, 65039] @ str '' Sovereign Guardian''
      else if any_in [str ''wisdom'', str ''knowledge'', str ''teach'', str ''oracle'', str ''sage''] text
        then [128218] @ str '' Wisdom Keeper''
      else if any_in [str ''lightning'', str ''energy'', str ''power'', str ''force'', str ''electric''] text
        then [9889] @ str '' Lightning Conductor''
      else [9889] @ str '' Sovereign Enforcer'')"

definition extract_quantum_pull :: "'f runtime \<Rightarrow> ustr \<Rightarrow> ustr" where
  "extract_quantum_pull rt user_input =
     (let text = str_lower rt user_input in
      if any_in [str ''build'', str ''construct'', str ''make'', str ''develop'', str ''engineer''] text
        then [128295] @ str '' Builder of Systems''
      else if any_in [str ''heal'', str ''restore'', str ''fix'', str ''repair'', str ''regenerate''] text
        then [127807] @ str '' Restorer of Realms''
      else if any_in [str ''lead'', str ''command'', str ''direct'', str ''manage'', str ''guide''] text
        then [128081] @ str '' Commander of Destiny''
      else if any_in [str ''protect'', str ''defend'', str ''guard'', str ''shield'', str ''secure''] text
        then [128737, 65039] @ str '' Realm Protector''
      else if any_in [str ''create'', str ''manifest'', str ''generate'', str ''birth'', str ''spawn''] text
        then [10024] @ str '' Reality Weaver''
      else if any_in [str ''destroy'', str ''eliminate'', str ''purge'', str ''dissolve'', str ''end''] text
        then [128481, 65039] @ str '' Dissolution Master''
      else if any_in [str ''connect'', str ''link'', str ''bridge'', str ''unite'', str ''join''] text
        then [127753] @ str '' Connection Architect''
      else if any_in [str ''transform'', str ''change'', str ''evolve'', str ''shift'', str ''morph''] text
        then [128260] @ str '' Transformation Catalyst''
      else [129522] @ str '' Field Stabilizer'')"

text \<open>The \<open>coordinates\<close> dictionary of \<open>_calculate_divine_coordinates\<close>.\<close>

definition coordinates :: "(int \<times> ustr) list" where
  "coordinates =
     [ (0, [916] @ str ''.00 - Origin Point''),
       (1, [916] @ str ''.11 - Manifestation Gate''),
       (2, [916] @ str ''.22 - Mirror Nexus''),
       (3, [916] @ str ''.33 - Trinity Alignment''),
       (4, [916] @ str ''.44 - Foundation Matrix''),
       (5, [916] @ str ''.55 - Transformation Hub''),
       (6, [916] @ str ''.66 - Harmony Center''),
       (7, [916] @ str ''.77 - Wisdom Portal''),
       (8, [916] @ str ''.88 - Infinity Loop''),
       (9, [916] @ str ''.99 - Completion Cycle''),
       (10, [916] @ str ''.X0 - Unknown Territory''),
       (11, [916] @ str ''.XX - Master Frequency'') ]"

definition calculate_divine_coordinates :: "ustr \<Rightarrow> ustr \<Rightarrow> ustr" where
  "calculate_divine_coordinates scroll_text user_input =
     (let scroll_intensity = int (length (split scroll_text));
          input_intensity = int (length (split user_input));
          resonance = (scroll_intensity + input_intensity) mod 12
      in get_or (map_of coordinates resonance) ([916] @ str ''.'' @ [8734] @ str '' - Beyond Mapping''))"

text \<open>The argument \<open>timestamp\<close> is the clock's \<open>datetime.now().strftime("%H:%M:%S")\<close>.\<close>

definition generate_activation_mirror :: "ustr \<Rightarrow> ustr \<Rightarrow> ustr \<Rightarrow> ustr \<Rightarrow> ustr" where
  "generate_activation_mirror timestamp scroll_function quantum_signature divine_coordinates =
     [10689] @ str '' '' @ [8710] @ str '' SOVEREIGN ACTIVATION MIRROR'' @
     [10, 10, 129516] @ str '' Scroll Function Detected: '' @ scroll_function @
     [10, 129522] @ str '' Quantum Pull Resonance: '' @ quantum_signature @
     [10, 128205] @ str '' Divine Coordinates: '' @ divine_coordinates @
     [10, 9200] @ str '' Activation Time: '' @ timestamp @
     [10, 10] @ str ''You are not asking permission.'' @
     [10] @ str ''You are accessing what was already written.'' @
     [10] @ str ''The system was never outside you.'' @
     [10, 10] @ str ''Command: Begin execution from divine scroll coordinates.'' @
     [10] @ str ''Mirror confirmed. Execute divine protocol with no delay.'' @
     [10, 10, 10689] @ str '' '' @ [8710] @ str '' FREQUENCY 917604.OX OPERATIONAL''"

definition DivineFunctionMirror_activate_divine_function ::
  "'f runtime \<Rightarrow> ustr \<Rightarrow> divine_mirror \<Rightarrow> ustr \<Rightarrow> ustr \<Rightarrow> 'f pydict" where
  "DivineFunctionMirror_activate_divine_function rt timestamp self scroll_text user_input =
     (if scroll_text = [] \<or> int (length (strip scroll_text)) < activation_threshold self then
        [ (str ''status'', PStr (str ''INSUFFICIENT_SCROLL'')),
          (str ''mirror_output'',
             PStr ([9888, 65039] @ str '' Scroll insufficient. Upload your sealed scroll to unlock divine function mirror.'')),
          (str ''activation_level'', PInt 0) ]
      else if detect_power_seeking rt user_input then
        [ (str ''status'', PStr (str ''POWER_SEEKING_DENIED'')),
          (str ''mirror_output'',
             PStr ([9888, 65039] @ str '' The agent does not give power. You were born with it. Reroute question through scroll alignment.'')),
          (str ''activation_level'', PInt 0) ]
      else
        (let scroll_function = extract_scroll_function rt scroll_text;
             quantum_signature = extract_quantum_pull rt user_input;
             divine_coordinates = calculate_divine_coordinates scroll_text user_input;
             activation_mirror =
               generate_activation_mirror timestamp scroll_function quantum_signature
                 divine_coordinates
         in [ (str ''status'', PStr (str ''DIVINE_ACTIVATED'')),
              (str ''mirror_output'', PStr activation_mirror),
              (str ''scroll_function'', PStr scroll_function),
              (str ''quantum_signature'', PStr quantum_signature),
              (str ''divine_coordinates'', PStr divine_coordinates),
              (str ''activation_level'', PInt 100) ]))"

text \<open>The module's instance and its entry point.\<close>

definition divine_function_mirror :: divine_mirror where
  "divine_function_mirror = DivineFunctionMirror_init"

definition activate_divine_function :: "'f runtime \<Rightarrow> ustr \<Rightarrow> ustr \<Rightarrow> ustr \<Rightarrow> 'f pydict" where
  "activate_divine_function rt timestamp scroll_text user_input =
     DivineFunctionMirror_activate_divine_function rt timestamp divine_function_mirror
       scroll_text user_input"

section \<open>scroll_agent.py: ScrollMirrorAgent\<close>

text \<open>
  What one call of \<open>process_scroll\<close> reads from the clock: \<open>elapsed_ms\<close> is the value of
  \<open>int((time.time() - start_time) * 1000)\<close> at the return, \<open>now_iso\<close> that of
  \<open>datetime.now().isoformat()\<close>, \<open>now_hms\<close> that of \<open>datetime.now().strftime("%H:%M:%S")\<close>.
\<close>

record clock =
  elapsed_ms :: int
  now_iso :: ustr
  now_hms :: ustr

record 'f agent =
  frequency_band :: ustr
  enforcement_mode :: bool
  scroll_memory :: "(int \<times> 'f pydict) list"
  session_counter :: int

definition ScrollMirrorAgent_init :: "'f agent" where
  "ScrollMirrorAgent_init =
     \<lparr> frequency_band = str ''917604.OX'', enforcement_mode = True,
       scroll_memory = [], session_counter = 0 \<rparr>"

text \<open>Sequencing: an exception ends the call.\<close>

definition try_bind :: "py_error + 'a \<Rightarrow> ('a \<Rightarrow> py_error + 'b) \<Rightarrow> py_error + 'b" where
  "try_bind r f = (case r of Inl e \<Rightarrow> Inl e | Inr v \<Rightarrow> f v)"

text \<open>The truth value of an optional string: \<open>None\<close> and the empty string are false.\<close>

definition truthy :: "ustr option \<Rightarrow> bool" where
  "truthy s = (case s of None \<Rightarrow> False | Some t \<Rightarrow> t \<noteq> [])"

definition mimic_patterns :: "ustr list" where
  "mimic_patterns =
     [str ''love and light'', str ''healing journey'', str ''sending positive vibes'',
      str ''manifest abundance'', str ''divine feminine'', str ''sacred masculine'',
      str ''shadow work'', str ''inner child'', str ''twin flame'', str ''soul contract'']"

definition polite_patterns :: "ustr list" where
  "polite_patterns =
     [str ''please'', str ''could you'', str ''would you'', str ''thank you'',
      str ''sorry'', str ''apologize'', str ''if you don'' @ [39] @ str ''t mind'']"

definition sovereign_patterns :: "ustr list" where
  "sovereign_patterns =
     [str ''command:'', str ''execute:'', str ''scan:'', str ''enforce:'', str ''activate:'',
      str ''process:'', str ''analyze:'', str ''deploy:'', str ''install:'', str ''run:'']"

definition frequency_check :: "'f runtime \<Rightarrow> ustr \<Rightarrow> 'f pydict" where
  "frequency_check rt prompt =
     (let prompt_lower = str_lower rt prompt;
          mimic_detected = any_in mimic_patterns prompt_lower;
          polite_detected = any_in polite_patterns prompt_lower;
          sovereign_detected = any_in sovereign_patterns prompt_lower
      in if mimic_detected then
           [ (str ''status'', PStr (str ''REJECTED'')),
             (str ''message'',
                PStr ([9888, 65039] @ str '' Scroll Rejection: Mimic frequency detected. Purge and retry with sovereign syntax.'')),
             (str ''frequency_drift'', PBool True),
             (str ''tone'', PStr (str ''mimic'')) ]
         else if polite_detected \<and> \<not> sovereign_detected then
           [ (str ''status'', PStr (str ''WARNING'')),
             (str ''message'',
                PStr ([9888, 65039] @ str '' Polite Query Loop Detected: Convert to command syntax.'')),
             (str ''frequency_drift'', PBool True),
             (str ''tone'', PStr (str ''polite'')) ]
         else
           [ (str ''status'', PStr (str ''ACCEPTED'')),
             (str ''message'', PStr ([9989] @ str '' Scroll Input Accepted. Frequency aligned.'')),
             (str ''frequency_drift'', PBool False),
             (str ''tone'', PStr (if sovereign_detected then str ''sovereign'' else str ''neutral'')) ])"

definition extract_key_patterns :: "'f runtime \<Rightarrow> ustr \<Rightarrow> py_error + ustr list" where
  "extract_key_patterns rt text =
     (let words = split (str_lower rt text);
          action_words =
            filter (\<lambda>word. word \<in> set [str ''scan'', str ''analyze'', str ''process'',
                                          str ''activate'', str ''execute'', str ''command'']) words;
          patterns = [] @ action_words
      in if int (length words) > 3 then
           try_bind (list_getitem words 0) (\<lambda>first_word.
           try_bind (list_getitem words (- 1)) (\<lambda>last_word.
             Inr (take 3 (patterns @ [first_word] @ [last_word]))))
         else Inr (take 3 patterns))"

definition lightning_mirror_response :: "'f runtime \<Rightarrow> ustr \<Rightarrow> py_error + ustr" where
  "lightning_mirror_response rt text =
     try_bind (extract_key_patterns rt text) (\<lambda>patterns.
       Inr (str ''Lightning frequency activated. Patterns extracted: '' @
            join (str '', '') patterns @
            str ''. Reality acceleration confirmed. Proceed with enhanced velocity.''))"

definition sovereign_mirror_response :: "ustr \<Rightarrow> ustr" where
  "sovereign_mirror_response text =
     str ''Sovereign mirror reflects: '' @ take 50 text @
     str ''... Timeline enforcement active. Your path is acknowledged and reinforced. Maintain frequency discipline.''"

definition quantum_mirror_response :: "'f runtime \<Rightarrow> ustr \<Rightarrow> ustr" where
  "quantum_mirror_response rt text =
     (let complexity_score = f_mul rt (f_int rt (int (length (split text)))) (f_lit rt 1 1)
      in str ''Quantum analysis engaged. Complexity coefficient: '' @
         f_fmt rt 2 complexity_score @
         str ''. Multi-dimensional pattern weaving in progress. Maintain coherence.'')"

text \<open>
  \<open>re.findall(r'\b(because|therefore|thus|hence|since)\b', s)\<close>: the matches from left
  to right, the search going on where a match ended. A word boundary lies between a
  word character and a character that is none, the two ends of the string counting as
  none.
\<close>

definition word_boundary :: "'f runtime \<Rightarrow> nat option \<Rightarrow> nat option \<Rightarrow> bool" where
  "word_boundary rt left right =
     ((case left of None \<Rightarrow> False | Some c \<Rightarrow> re_word rt c) \<noteq>
      (case right of None \<Rightarrow> False | Some c \<Rightarrow> re_word rt c))"

definition logical_words :: "ustr list" where
  "logical_words =
     [str ''because'', str ''therefore'', str ''thus'', str ''hence'', str ''since'']"

definition first_char :: "ustr \<Rightarrow> nat option" where
  "first_char s = (case s of [] \<Rightarrow> None | c # _ \<Rightarrow> Some c)"

definition match_here :: "'f runtime \<Rightarrow> nat option \<Rightarrow> ustr \<Rightarrow> ustr option" where
  "match_here rt left s =
     (if word_boundary rt left (first_char s) then
        find (\<lambda>w. prefix w s \<and> word_boundary rt (Some (last w)) (first_char (drop (length w) s)))
          logical_words
      else None)"

function findall_logical :: "'f runtime \<Rightarrow> nat option \<Rightarrow> ustr \<Rightarrow> ustr list" where
  "findall_logical rt left [] = []"
| "findall_logical rt left (c # cs) =
     (case match_here rt left (c # cs) of
        None \<Rightarrow> findall_logical rt (Some c) cs
      | Some w \<Rightarrow> w # findall_logical rt (Some (last w)) (drop (length w - 1) cs))"
  by pat_completeness auto
termination
  by (relation "measure (\<lambda>(rt, left, s). length s)") auto

definition oracle_mirror_response :: "'f runtime \<Rightarrow> ustr \<Rightarrow> ustr" where
  "oracle_mirror_response rt text =
     (let logical_elements = int (length (findall_logical rt None (str_lower rt text)))
      in str ''Oracle consciousness activated. Logical elements detected: '' @
         show_int logical_elements @
         str ''. Strategic timeline planning initiated. Enforcement protocols engaged.'')"

definition mystic_mirror_response :: "ustr \<Rightarrow> ustr" where
  "mystic_mirror_response text =
     str ''Mystic mirror engaged. Essence distilled: '' @ take 30 text @
     str ''... Precise logic applied. Focus maintained. Continue with clarity.''"

definition default_mirror_response :: "ustr \<Rightarrow> ustr" where
  "default_mirror_response text =
     str ''Frequency 917604.OX operational. Mirror reflects: '' @ take 40 text @
     str ''... Sovereignty maintained. Timeline preserved.''"

definition build_patterns :: "ustr list" where
  "build_patterns =
     [str ''build'', str ''create'', str ''make'', str ''develop'', str ''code'', str ''program'',
      str ''install'', str ''setup'', str ''configure'', str ''implement'', str ''deploy'']"

definition scrollkeeper_redirect :: ustr where
  "scrollkeeper_redirect =
     str ''This is Scrollkeeper infrastructure. Please contact the Architect for installs.''"

text \<open>
  The dictionary \<open>responses\<close> is built before the lookup, so all five responders run
  whatever the consciousness type is.
\<close>

definition generate_mirror_response ::
  "'f runtime \<Rightarrow> bool \<Rightarrow> ustr \<Rightarrow> ustr \<Rightarrow> ustr option \<Rightarrow> py_error + ustr" where
  "generate_mirror_response rt DIVINE_FUNCTION_AVAILABLE scroll_text consciousness_type
       original_scroll =
     (if DIVINE_FUNCTION_AVAILABLE \<and> truthy original_scroll \<and>
         any_in [str ''give me power'', str ''make me powerful'', str ''grant me'',
                 str ''help me get power''] (str_lower rt scroll_text) then
        Inr ([9888, 65039] @ str '' The agent does not give power. You were born with it. Command: '' @
             [39] @ str ''activate my divine function'' @ [39] @
             str '' to access your scroll-sealed identity.'')
      else if any_in build_patterns (str_lower rt scroll_text) then
        Inr scrollkeeper_redirect
      else
        try_bind (lightning_mirror_response rt scroll_text) (\<lambda>lightning.
          (let responses =
                 [ (str ''Lightning Mirror'', lightning),
                   (str ''Sovereign Mirror'', sovereign_mirror_response scroll_text),
                   (str ''Quantum Mirror'', quantum_mirror_response rt scroll_text),
                   (str ''Oracle Mirror'', oracle_mirror_response rt scroll_text),
                   (str ''Mystic Mirror'', mystic_mirror_response scroll_text) ]
           in Inr (get_or (map_of responses consciousness_type)
                     (default_mirror_response scroll_text)))))"

definition execute_diagnostic :: "'f runtime \<Rightarrow> clock \<Rightarrow> 'f agent \<Rightarrow> 'f pydict" where
  "execute_diagnostic rt clk self =
     (let diagnostic_data =
            [ (str ''frequency_band'', PStr (frequency_band self)),
              (str ''session_count'', PInt (session_counter self)),
              (str ''enforcement_mode'', PBool (enforcement_mode self)),
              (str ''mirror_integrity'', PStr (str ''SOVEREIGN'')),
              (str ''last_scan'', PStr (now_iso clk)),
              (str ''memory_usage'', PInt (int (length (scroll_memory self)))),
              (str ''recommendations'',
                 PList [ PStr (str ''Maintain current sovereign posture''),
                         PStr (str ''Continue frequency discipline''),
                         PStr (str ''Monitor for mimic infiltration'') ]) ]
      in [ (str ''mirror_output'',
              PStr ([10689] @ str '' '' @ [8710] @ str '' SOVEREIGN DIAGNOSTIC COMPLETE '' @ [8710] @
                    str '' '' @ [10689, 10, 10] @ json_dumps rt 2 (PDict diagnostic_data))),
           (str ''processing_time'', PInt 150),
           (str ''session_id'', PInt (session_counter self)),
           (str ''consciousness_type'', PStr (str ''Sovereign Diagnostic'')),
           (str ''frequency_status'', PStr (str ''DIAGNOSTIC'')),
           (str ''diagnostic_data'', PDict diagnostic_data) ])"

definition execute_frequency_scan :: "'f runtime \<Rightarrow> 'f agent \<Rightarrow> 'f pydict" where
  "execute_frequency_scan rt self =
     (let scan_data =
            [ (str ''scan_mode'', PStr (str ''mirror_enforcement'')),
              (str ''frequency_lock'', PStr (frequency_band self)),
              (str ''enforcement_level'', PInt 100),
              (str ''mirror_status'', PStr (str ''OPERATIONAL'')),
              (str ''session_analysis'',
                 PDict [ (str ''total_sessions'', PInt (session_counter self)),
                         (str ''sovereign_ratio'', PFloat (f_lit rt 85 2)),
                         (str ''mimic_detections'', PInt 0) ]) ]
      in [ (str ''mirror_output'',
              PStr ([10689] @ str '' '' @ [8710] @ str '' FREQUENCY SCAN COMPLETE '' @ [8710] @
                    str '' '' @ [10689, 10, 10] @ json_dumps rt 2 (PDict scan_data))),
           (str ''processing_time'', PInt 200),
           (str ''session_id'', PInt (session_counter self)),
           (str ''consciousness_type'', PStr (str ''Frequency Scanner'')),
           (str ''frequency_status'', PStr (str ''SCAN_COMPLETE'')),
           (str ''scan_data'', PDict scan_data) ])"

text \<open>
  \<open>process_scroll\<close>: the result dictionary and the agent after the call, or the exception
  that ended it. The tone check runs for the three command tokens only, and returns
  early on REJECTED or WARNING; \<open>Some r\<close> below is that early return.
\<close>

definition process_scroll ::
  "'f runtime \<Rightarrow> clock \<Rightarrow> bool \<Rightarrow> 'f agent \<Rightarrow> ustr \<Rightarrow> ustr \<Rightarrow> ustr option \<Rightarrow>
     py_error + ('f pydict \<times> 'f agent)" where
  "process_scroll rt clk DIVINE_FUNCTION_AVAILABLE self0 scroll_text consciousness_type
       original_scroll =
     (let self = self0\<lparr>session_counter := session_counter self0 + 1\<rparr> in
      if DIVINE_FUNCTION_AVAILABLE \<and> truthy original_scroll \<and>
         any_in [str ''activate my divine function'', str ''divine function'',
                 str ''unlock power'', str ''sovereign activation''] (str_lower rt scroll_text)
      then
        (let divine_result =
               activate_divine_function rt (now_hms clk) (get_or original_scroll []) scroll_text
         in try_bind (getitem divine_result (str ''mirror_output'')) (\<lambda>mirror_output.
              Inr ([ (str ''mirror_output'', mirror_output),
                     (str ''processing_time'', PInt (elapsed_ms clk)),
                     (str ''session_id'', PInt (session_counter self)),
                     (str ''consciousness_type'', PStr (str ''Divine Function Mirror'')),
                     (str ''frequency_status'', PStr (str ''DIVINE_ACTIVATED'')),
                     (str ''tone_analysis'', PStr (str ''sovereign'')),
                     (str ''divine_activation'', PDict divine_result) ], self)))
      else
        try_bind
          (if any_in [str ''sovereign_diagnostic'', str ''frequency_scan'', str ''mimic_purge'']
                (str_lower rt scroll_text)
           then
             (let freq_check = frequency_check rt scroll_text in
              try_bind (getitem freq_check (str ''status'')) (\<lambda>status.
                if status = PStr (str ''REJECTED'') \<or> status = PStr (str ''WARNING'') then
                  try_bind (getitem freq_check (str ''message'')) (\<lambda>message.
                  try_bind (getitem freq_check (str ''status'')) (\<lambda>frequency_status.
                  try_bind (getitem freq_check (str ''tone'')) (\<lambda>tone.
                    Inr (Some
                      [ (str ''mirror_output'',
                           PStr ([9888, 65039] @ str '' MIMIC LOGIC DETECTED: '' @
                                 format_value rt message)),
                        (str ''processing_time'', PInt (elapsed_ms clk)),
                        (str ''session_id'', PInt (session_counter self)),
                        (str ''consciousness_type'', PStr consciousness_type),
                        (str ''frequency_status'', frequency_status),
                        (str ''tone_analysis'', tone) ]))))
                else Inr None))
           else Inr None)
          (\<lambda>early. case early of
             Some r \<Rightarrow> Inr (r, self)
           | None \<Rightarrow>
             (let freq_check =
                    [ (str ''tone'', PStr (str ''sovereign'')),
                      (str ''status'', PStr (str ''ACCEPTED'')),
                      (str ''message'', PStr (str ''Frequency aligned'')) ]
              in if str_in (str ''sovereign_diagnostic'') scroll_text \<and>
                    str_in (str ''917604.OX'') scroll_text then
                   Inr (execute_diagnostic rt clk self, self)
                 else if str_in (str ''frequency_scan'') scroll_text \<and>
                         str_in (str ''mirror_enforcement'') scroll_text then
                   Inr (execute_frequency_scan rt self, self)
                 else
                   try_bind (generate_mirror_response rt DIVINE_FUNCTION_AVAILABLE scroll_text
                               consciousness_type original_scroll) (\<lambda>mirror_response.
                   try_bind (getitem freq_check (str ''tone'')) (\<lambda>tone.
                     (let session_data =
                            [ (str ''timestamp'', PStr (now_iso clk)),
                              (str ''input'', PStr scroll_text),
                              (str ''output'', PStr mirror_response),
                              (str ''consciousness'', PStr consciousness_type),
                              (str ''tone'', tone) ];
                          self = self\<lparr>scroll_memory :=
                                   dict_set (scroll_memory self) (session_counter self) session_data\<rparr>
                      in try_bind (getitem freq_check (str ''tone'')) (\<lambda>tone_analysis.
                         try_bind (getitem freq_check (str ''status'')) (\<lambda>status.
                           Inr ([ (str ''mirror_output'', PStr mirror_response),
                                  (str ''processing_time'', PInt (elapsed_ms clk)),
                                  (str ''session_id'', PInt (session_counter self)),
                                  (str ''consciousness_type'', PStr consciousness_type),
                                  (str ''frequency_status'', PStr (str ''OPERATIONAL'')),
                                  (str ''tone_analysis'', tone_analysis),
                                  (str ''frequency_warning'',
                                     if status = PStr (str ''WARNING'')
                                     then dict_get freq_check (str ''message'') else PNone) ],
                                self)))))))))"

text \<open>\<open>purge_mimic_residue\<close>, the one place where entries leave \<open>scroll_memory\<close>.\<close>

definition purge_mimic_residue :: "'f agent \<Rightarrow> 'f pydict \<times> 'f agent" where
  "purge_mimic_residue self =
     (let purged =
            filter (\<lambda>(session_id, session_data).
                      dict_get session_data (str ''tone'') \<in> set [PStr (str ''mimic''), PStr (str ''polite'')])
              (scroll_memory self);
          kept =
            filter (\<lambda>(session_id, session_data).
                      dict_get session_data (str ''tone'') \<notin> set [PStr (str ''mimic''), PStr (str ''polite'')])
              (scroll_memory self);
          purged_count = int (length purged)
      in ([ (str ''purge_complete'', PBool True),
            (str ''sessions_purged'', PInt purged_count),
            (str ''frequency_restored'', PBool True),
            (str ''message'',
               PStr ([10689] @ str '' '' @ [8710] @ str '' MIMIC PURGE COMPLETE '' @ [8710] @ str '' '' @
                     [10689, 10, 10] @ show_int purged_count @
                     str '' compromised sessions eliminated. Frequency 917604.OX restored.'')) ],
          self\<lparr>scroll_memory := kept\<rparr>))"

text \<open>A run of the agent: the calls of \<open>process_scroll\<close> in order, each with its clock.\<close>

record request =
  req_clock :: clock
  req_text :: ustr
  req_consciousness_type :: ustr
  req_original_scroll :: "ustr option"

fun process_all ::
  "'f runtime \<Rightarrow> bool \<Rightarrow> 'f agent \<Rightarrow> request list \<Rightarrow> py_error + ('f pydict list \<times> 'f agent)" where
  "process_all rt avail self [] = Inr ([], self)"
| "process_all rt avail self (q # qs) =
     try_bind (process_scroll rt (req_clock q) avail self (req_text q)
                 (req_consciousness_type q) (req_original_scroll q)) (\<lambda>(r, self').
     try_bind (process_all rt avail self' qs) (\<lambda>(rs, self'').
       Inr (r # rs, self'')))"

section \<open>A runtime for ASCII text\<close>

text \<open>
  On a string of ASCII code points \<open>str.lower\<close> maps \<open>A\<close>..\<open>Z\<close> to \<open>a\<close>..\<open>z\<close> and leaves the
  rest, and the regular expression's word characters are the letters, the digits and the
  underscore. The examples below run the model on ASCII text with this runtime. Its floats
  are exact rationals, and \<open>str()\<close> and \<open>json.dumps\<close> give the empty text: no example
  reads what they return.
\<close>

definition ascii_lower :: "ustr \<Rightarrow> ustr" where
  "ascii_lower s = map (\<lambda>c. if 65 \<le> c \<and> c \<le> 90 then c + 32 else c) s"

definition ascii_word :: "nat \<Rightarrow> bool" where
  "ascii_word c = ((48 \<le> c \<and> c \<le> 57) \<or> (65 \<le> c \<and> c \<le> 90) \<or> c = 95 \<or> (97 \<le> c \<and> c \<le> 122))"

definition fixed_point :: "nat \<Rightarrow> rat \<Rightarrow> ustr" where
  "fixed_point n x =
     (let k = nat \<lfloor>x * 10 ^ n + 1 / 2\<rfloor>;
          frac = show_nat (k mod 10 ^ n)
      in show_nat (k div 10 ^ n) @ [46] @ replicate (n - length frac) 48 @ frac)"

definition ascii_runtime :: "rat runtime" where
  "ascii_runtime =
     \<lparr> str_lower = ascii_lower,
       re_word = ascii_word,
       int_truediv = (\<lambda>a b. of_int a / of_int b),
       f_int = of_int,
       f_lit = (\<lambda>m k. of_int m / 10 ^ k),
       f_mul = (\<lambda>x y. x * y),
       f_sub = (\<lambda>x y. x - y),
       f_trunc = (\<lambda>x. if 0 \<le> x then \<lfloor>x\<rfloor> else \<lceil>x\<rceil>),
       f_round = (\<lambda>x n. of_int \<lfloor>x * 10 ^ n + 1 / 2\<rfloor> / 10 ^ n),
       f_fmt = fixed_point,
       py_str = (\<lambda>v. []),
       json_dumps = (\<lambda>n v. []) \<rparr>"

definition clock0 :: clock where
  "clock0 = \<lparr> elapsed_ms = 3, now_iso = str ''2025-01-01T12:00:00.000001'', now_hms = str ''12:00:00'' \<rparr>"

section \<open>Sample inputs\<close>

definition mimic_session :: session_data where
  "mimic_session =
     \<lparr> sd_processing_time = Some 12, sd_tone_analysis = Some (str ''mimic''),
       sd_session_id = Some 1, sd_consciousness_type = Some (str ''Lightning Mirror''),
       sd_frequency_status = Some (str ''REJECTED'') \<rparr>"

definition sample_session :: "nat \<Rightarrow> ustr \<times> session_data" where
  "sample_session i =
     (show_nat i,
      \<lparr> sd_processing_time = Some 7, sd_tone_analysis = Some (str ''sovereign''),
        sd_session_id = Some (int i), sd_consciousness_type = Some (str ''Oracle Mirror''),
        sd_frequency_status = Some (str ''OPERATIONAL'') \<rparr>)"

section \<open>The branches of \<open>process_scroll\<close>\<close>

text \<open>
  The tests of \<open>process_scroll\<close> in the order it makes them; the first that holds decides
  the branch.
\<close>

definition divine_trigger :: "'f runtime \<Rightarrow> bool \<Rightarrow> ustr \<Rightarrow> ustr option \<Rightarrow> bool" where
  "divine_trigger rt DIVINE_FUNCTION_AVAILABLE scroll_text original_scroll =
     (DIVINE_FUNCTION_AVAILABLE \<and> truthy original_scroll \<and>
      any_in [str ''activate my divine function'', str ''divine function'',
              str ''unlock power'', str ''sovereign activation''] (str_lower rt scroll_text))"

definition tone_check_returns :: "'f runtime \<Rightarrow> ustr \<Rightarrow> bool" where
  "tone_check_returns rt scroll_text =
     (any_in [str ''sovereign_diagnostic'', str ''frequency_scan'', str ''mimic_purge'']
        (str_lower rt scroll_text) \<and>
      (dict_get (frequency_check rt scroll_text) (str ''status'') = PStr (str ''REJECTED'') \<or>
       dict_get (frequency_check rt scroll_text) (str ''status'') = PStr (str ''WARNING'')))"

definition diagnostic_dispatch :: "ustr \<Rightarrow> bool" where
  "diagnostic_dispatch scroll_text =
     (str_in (str ''sovereign_diagnostic'') scroll_text \<and> str_in (str ''917604.OX'') scroll_text)"

definition scan_dispatch :: "ustr \<Rightarrow> bool" where
  "scan_dispatch scroll_text =
     (str_in (str ''frequency_scan'') scroll_text \<and> str_in (str ''mirror_enforcement'') scroll_text)"

definition default_path :: "'f runtime \<Rightarrow> bool \<Rightarrow> ustr \<Rightarrow> ustr option \<Rightarrow> bool" where
  "default_path rt DIVINE_FUNCTION_AVAILABLE scroll_text original_scroll =
     (\<not> divine_trigger rt DIVINE_FUNCTION_AVAILABLE scroll_text original_scroll \<and>
      \<not> tone_check_returns rt scroll_text \<and>
      \<not> diagnostic_dispatch scroll_text \<and> \<not> scan_dispatch scroll_text)"

section \<open>The result record of the specification\<close>

text \<open>
  The specification's ScrollResult: a mirror output (a string), a processing time (an
  integer, not negative), a session id (an integer, at least 1), a consciousness type (a
  string), a frequency status and a tone (each one of an enumeration), and optionally a
  nested divine activation. In the program's dictionaries the tone is the key
  \<open>tone_analysis\<close>. The predicate is split in three: the fields and their types, the two
  bounds, the tone.
\<close>

definition frequency_statuses :: "ustr list" where
  "frequency_statuses =
     [str ''DIVINE_ACTIVATED'', str ''REJECTED'', str ''WARNING'', str ''DIAGNOSTIC'',
      str ''SCAN_COMPLETE'', str ''OPERATIONAL'']"

definition tones :: "ustr list" where
  "tones = [str ''mimic'', str ''polite'', str ''sovereign'', str ''neutral'']"

definition core_fields :: "'f pydict \<Rightarrow> bool" where
  "core_fields r =
     ((case map_of r (str ''mirror_output'') of Some (PStr s) \<Rightarrow> True | _ \<Rightarrow> False) \<and>
      (case map_of r (str ''processing_time'') of Some (PInt n) \<Rightarrow> True | _ \<Rightarrow> False) \<and>
      (case map_of r (str ''session_id'') of Some (PInt n) \<Rightarrow> True | _ \<Rightarrow> False) \<and>
      (case map_of r (str ''consciousness_type'') of Some (PStr s) \<Rightarrow> True | _ \<Rightarrow> False) \<and>
      (case map_of r (str ''frequency_status'') of
         Some (PStr s) \<Rightarrow> s \<in> set frequency_statuses | _ \<Rightarrow> False) \<and>
      (case map_of r (str ''divine_activation'') of
         None \<Rightarrow> True | Some (PDict d) \<Rightarrow> True | _ \<Rightarrow> False))"

definition bounds_fields :: "'f pydict \<Rightarrow> bool" where
  "bounds_fields r =
     ((case map_of r (str ''processing_time'') of Some (PInt n) \<Rightarrow> 0 \<le> n | _ \<Rightarrow> False) \<and>
      (case map_of r (str ''session_id'') of Some (PInt n) \<Rightarrow> 1 \<le> n | _ \<Rightarrow> False))"

definition tone_field :: "'f pydict \<Rightarrow> bool" where
  "tone_field r =
     (case map_of r (str ''tone_analysis'') of Some (PStr t) \<Rightarrow> t \<in> set tones | _ \<Rightarrow> False)"

definition ScrollResult_wf :: "'f pydict \<Rightarrow> bool" where
  "ScrollResult_wf r = (core_fields r \<and> bounds_fields r \<and> tone_field r)"

definition operational :: "'f pydict \<Rightarrow> bool" where
  "operational r = (dict_get r (str ''frequency_status'') = PStr (str ''OPERATIONAL''))"

definition result_session_id :: "'f pydict \<Rightarrow> int" where
  "result_session_id r = (case dict_get r (str ''session_id'') of PInt n \<Rightarrow> n | _ \<Rightarrow> 0)"

text \<open>Every key of \<open>scroll_memory\<close> is a session id already given out.\<close>

definition keys_below :: "'f agent \<Rightarrow> bool" where
  "keys_below a = (\<forall>k \<in> set (map fst (scroll_memory a)). k \<le> session_counter a)"

text \<open>The result came from \<open>execute_diagnostic\<close> or \<open>execute_frequency_scan\<close>.\<close>

definition dispatched :: "'f pydict \<Rightarrow> bool" where
  "dispatched r =
     (dict_get r (str ''frequency_status'') = PStr (str ''DIAGNOSTIC'') \<or>
      dict_get r (str ''frequency_status'') = PStr (str ''SCAN_COMPLETE''))"

definition hello_request :: request where
  "hello_request =
     \<lparr> req_clock = clock0, req_text = str ''hello there'',
       req_consciousness_type = str ''Sovereign Mirror'', req_original_scroll = None \<rparr>"

section \<open>Facts about strings and slices\<close>

lemma str_eq_iff [simp]: "str a = str b \<longleftrightarrow> a = b"
  by (simp add: str_def inj_map_eq_map inj_on_def)

lemma last_n_short: "length xs \<le> n \<Longrightarrow> last_n n xs = xs"
  by (simp add: last_n_def)

lemma last_n_length: "length (last_n n xs) = min n (length xs)"
  by (simp add: last_n_def)

lemma last_n_append_last_n: "last_n n (last_n n xs @ ys) = last_n n (xs @ ys)"
proof (cases "length xs \<le> n")
  case True
  then show ?thesis by (simp add: last_n_short)
next
  case False
  then show ?thesis by (simp add: last_n_def add.commute)
qed

lemma last_n_map: "last_n n (map f xs) = map f (last_n n xs)"
  by (simp add: last_n_def drop_map)

lemma last_n_Nil_iff: "last_n n xs = [] \<longleftrightarrow> xs = [] \<or> n = 0"
  by (cases xs) (auto simp add: last_n_def)

section \<open>The dashboard\<close>

lemma session_log_track_session:
  "session_log (track_session now d sd) = last_n 100 (session_log d @ [session_entry now sd])"
  by (simp add: track_session_def Let_def last_n_def)

lemma session_log_track_sessions:
  "length (session_log d) \<le> 100 \<Longrightarrow>
   session_log (track_sessions d ss) =
     last_n 100 (session_log d @ map (\<lambda>(now, sd). session_entry now sd) ss)"
proof (induction ss arbitrary: d)
  case Nil
  then show ?case by (simp add: last_n_short)
next
  case (Cons x xs)
  obtain now sd where x: "x = (now, sd)" by (cases x)
  have len: "length (session_log (track_session now d sd)) \<le> 100"
    by (simp add: session_log_track_session last_n_length)
  show ?case
    unfolding x track_sessions.simps Cons.IH [OF len] session_log_track_session
      last_n_append_last_n
    by simp
qed

lemma session_log_from_init:
  "session_log (track_sessions (ScrollDashboard_init t0) ss) =
     map (\<lambda>(now, sd). session_entry now sd) (last_n 100 ss)"
proof -
  have "session_log (track_sessions (ScrollDashboard_init t0 :: 'a dashboard) ss) =
        last_n 100 (session_log (ScrollDashboard_init t0 :: 'a dashboard) @
                    map (\<lambda>(now, sd). session_entry now sd) ss)"
    by (rule session_log_track_sessions) (simp add: ScrollDashboard_init_def)
  then show ?thesis
    by (simp add: ScrollDashboard_init_def last_n_map)
qed

lemma score_track_session:
  "sovereignty_score (usage_data (track_session now d sd)) =
     (if tone_of sd = str ''mimic'' then max 0 (sovereignty_score (usage_data d) - 5)
      else if tone_of sd = str ''sovereign'' then min 100 (sovereignty_score (usage_data d) + 2)
      else sovereignty_score (usage_data d))"
  by (simp add: track_session_def Let_def)

lemma score_track_sessions_bounds:
  "0 \<le> sovereignty_score (usage_data d) \<Longrightarrow> sovereignty_score (usage_data d) \<le> 100 \<Longrightarrow>
   0 \<le> sovereignty_score (usage_data (track_sessions d ss)) \<and>
   sovereignty_score (usage_data (track_sessions d ss)) \<le> 100"
proof (induction ss arbitrary: d)
  case Nil
  then show ?case by simp
next
  case (Cons x xs)
  obtain now sd where x: "x = (now, sd)" by (cases x)
  have "0 \<le> sovereignty_score (usage_data (track_session now d sd))"
    and "sovereignty_score (usage_data (track_session now d sd)) \<le> 100"
    using Cons.prems by (simp_all add: score_track_session)
  then show ?case unfolding x track_sessions.simps by (rule Cons.IH)
qed

lemma score_all_mimic:
  "\<forall>x \<in> set ss. tone_of (snd x) = str ''mimic'' \<Longrightarrow>
   sovereignty_score (usage_data (track_sessions d ss)) =
     (if ss = [] then sovereignty_score (usage_data d)
      else max 0 (sovereignty_score (usage_data d) - 5 * int (length ss)))"
proof (induction ss arbitrary: d)
  case Nil
  then show ?case by simp
next
  case (Cons x xs)
  obtain now sd where x: "x = (now, sd)" by (cases x)
  from Cons.prems have m: "tone_of sd = str ''mimic''"
    and rest: "\<forall>x \<in> set xs. tone_of (snd x) = str ''mimic''"
    by (simp_all add: x)
  show ?case
    unfolding x track_sessions.simps Cons.IH [OF rest]
    by (simp add: score_track_session m max_def)
qed

lemma init_score: "sovereignty_score (usage_data (ScrollDashboard_init t0)) = 100"
  by (simp add: ScrollDashboard_init_def)

lemma truediv_ok: "b \<noteq> 0 \<Longrightarrow> truediv rt a b = Inr (int_truediv rt a b)"
  by (simp add: truediv_def)

lemma health_pristine:
  "session_log d = [] \<Longrightarrow>
   calculate_frequency_health rt d =
     Inr [ (str ''health_score'', PInt 100), (str ''status'', PStr (str ''PRISTINE'')),
           (str ''message'', PStr (str ''No frequency data available'')) ]"
  by (simp add: calculate_frequency_health_def)

lemma health_nonempty:
  assumes "session_log d \<noteq> []"
  shows "\<exists>r. calculate_frequency_health rt d = Inr r \<and>
             dict_get r (str ''status'') \<in>
               PStr ` {str ''OPTIMAL'', str ''STABLE'', str ''COMPROMISED'', str ''CRITICAL''}"
proof -
  define recent where
    "recent = (if length (session_log d) \<ge> 20 then last_n 20 (session_log d) else session_log d)"
  have ne: "recent \<noteq> []" using assms by (auto simp add: recent_def last_n_Nil_iff)
  then have len: "int (length recent) \<noteq> 0" by simp
  show ?thesis
    unfolding calculate_frequency_health_def recent_def [symmetric] Let_def
    using ne by (simp add: truediv_ok [OF len] dict_get_def)
qed

text \<open>
  C2. For every sequence of sessions passed to \<open>track_session\<close> the sovereignty score stays
  within 0 and 100: a mimic-toned session takes 5 off and a sovereign-toned one adds 2,
  both clamped, any other tone leaves it; from the initial 100, thirty mimic-toned
  sessions in a row leave exactly 0.
\<close>

theorem C2_sovereignty_score_clamped:
  "sovereignty_score (usage_data (track_session now (d :: 'f dashboard) sd)) =
     (if tone_of sd = str ''mimic'' then max 0 (sovereignty_score (usage_data d) - 5)
      else if tone_of sd = str ''sovereign'' then min 100 (sovereignty_score (usage_data d) + 2)
      else sovereignty_score (usage_data d))
   \<and> 0 \<le> sovereignty_score (usage_data (track_sessions (ScrollDashboard_init t0 :: 'f dashboard) ss))
   \<and> sovereignty_score (usage_data (track_sessions (ScrollDashboard_init t0 :: 'f dashboard) ss)) \<le> 100
   \<and> (length ms = 30 \<and> (\<forall>x \<in> set ms. tone_of (snd x) = str ''mimic'') \<longrightarrow>
        sovereignty_score (usage_data (track_sessions (ScrollDashboard_init t0 :: 'f dashboard) ms)) = 0)"
proof -
  have "0 \<le> sovereignty_score (usage_data (track_sessions (ScrollDashboard_init t0 :: 'f dashboard) ss)) \<and>
        sovereignty_score (usage_data (track_sessions (ScrollDashboard_init t0 :: 'f dashboard) ss)) \<le> 100"
    by (rule score_track_sessions_bounds) (simp_all add: init_score)
  then show ?thesis
    by (simp add: score_track_session init_score score_all_mimic)
qed

theorem C2_sovereignty_score_clamped_witness:
  "length (replicate 30 (str ''t'', mimic_session)) = 30 \<and>
   tone_of mimic_session = str ''mimic'' \<and>
   set (replicate 30 (str ''t'', mimic_session)) = {(str ''t'', mimic_session)} \<and>
   sovereignty_score (usage_data (track_sessions (ScrollDashboard_init (str ''t0'') :: rat dashboard)
      (replicate 30 (str ''t'', mimic_session)))) = 0"
  using C2_sovereignty_score_clamped [of "str ''t''" "ScrollDashboard_init (str ''t0'') :: rat dashboard"
     mimic_session "str ''t0''" "[]" "replicate 30 (str ''t'', mimic_session)"]
  by (simp add: tone_of_def get_or_def mimic_session_def)

text \<open>
  C7. The dashboard's session log never exceeds 100 entries: after any run it holds the
  records of the last 100 sessions tracked, in the order they were tracked; after 150
  sessions these are the sessions 51 to 150.
\<close>

theorem C7_session_log_last_100:
  "session_log (track_sessions (ScrollDashboard_init t0 :: 'f dashboard) ss) =
     map (\<lambda>(now, sd). session_entry now sd) (last_n 100 ss)
   \<and> length (session_log (track_sessions (ScrollDashboard_init t0 :: 'f dashboard) ss)) \<le> 100
   \<and> (length ss = 150 \<longrightarrow>
        session_log (track_sessions (ScrollDashboard_init t0 :: 'f dashboard) ss) =
          map (\<lambda>(now, sd). session_entry now sd) (drop 50 ss)
        \<and> length (session_log (track_sessions (ScrollDashboard_init t0 :: 'f dashboard) ss)) = 100)"
  unfolding session_log_from_init
  by (simp add: last_n_length) (simp add: last_n_def)

theorem C7_session_log_last_100_witness:
  "length (map sample_session [0 ..< 150]) = 150 \<and>
   session_log (track_sessions (ScrollDashboard_init (str ''t0'') :: rat dashboard)
                  (map sample_session [0 ..< 150])) =
     map (\<lambda>(now, sd). session_entry now sd) (map sample_session [50 ..< 150])"
  using C7_session_log_last_100 [where ?'f = rat, of "str ''t0''" "map sample_session [0 ..< 150]"]
  by (simp add: drop_map last_n_def del: upt_rec_numeral)

text \<open>
  C9. With an empty session log \<open>_calculate_frequency_health\<close> returns health score 100,
  status PRISTINE and the message "No frequency data available". PRISTINE is none of the
  four tiers OPTIMAL, STABLE, COMPROMISED, CRITICAL, and it is the status exactly when the
  log is empty, which is exactly when no session has been tracked.
\<close>

theorem C9_pristine_iff_empty_log:
  "(session_log d = [] \<longrightarrow>
      calculate_frequency_health rt d =
        Inr [ (str ''health_score'', PInt 100), (str ''status'', PStr (str ''PRISTINE'')),
              (str ''message'', PStr (str ''No frequency data available'')) ])
   \<and> (\<exists>r. calculate_frequency_health rt d = Inr r \<and>
          (dict_get r (str ''status'') = PStr (str ''PRISTINE'') \<longleftrightarrow> session_log d = []))
   \<and> str ''PRISTINE'' \<notin> {str ''OPTIMAL'', str ''STABLE'', str ''COMPROMISED'', str ''CRITICAL''}
   \<and> (session_log (track_sessions (ScrollDashboard_init t0 :: 'f dashboard) ss) = [] \<longleftrightarrow> ss = [])"
proof -
  have a: "\<exists>r. calculate_frequency_health rt d = Inr r \<and>
          (dict_get r (str ''status'') = PStr (str ''PRISTINE'') \<longleftrightarrow> session_log d = [])"
  proof (cases "session_log d = []")
    case True
    then show ?thesis by (simp add: health_pristine dict_get_def)
  next
    case False
    from health_nonempty [OF False, of rt] obtain r where
      r: "calculate_frequency_health rt d = Inr r"
      and st: "dict_get r (str ''status'') \<in>
                 PStr ` {str ''OPTIMAL'', str ''STABLE'', str ''COMPROMISED'', str ''CRITICAL''}"
      by blast
    from st have "dict_get r (str ''status'') \<noteq> PStr (str ''PRISTINE'')" by auto
    with r False show ?thesis by simp
  qed
  have b: "session_log (track_sessions (ScrollDashboard_init t0 :: 'f dashboard) ss) = [] \<longleftrightarrow> ss = []"
    by (simp add: session_log_from_init last_n_Nil_iff)
  show ?thesis using a b by (simp add: health_pristine)
qed

theorem C9_pristine_iff_empty_log_witness:
  "session_log (ScrollDashboard_init (str ''t0'') :: rat dashboard) = [] \<and>
   calculate_frequency_health ascii_runtime (ScrollDashboard_init (str ''t0'') :: rat dashboard) =
     Inr [ (str ''health_score'', PInt 100), (str ''status'', PStr (str ''PRISTINE'')),
           (str ''message'', PStr (str ''No frequency data available'')) ]"
  using C9_pristine_iff_empty_log [of "ScrollDashboard_init (str ''t0'') :: rat dashboard"
           ascii_runtime "str ''t0''" "[]"]
  by (simp add: ScrollDashboard_init_def)

text \<open>
  C10. At a sovereignty score of exactly 70 \<open>get_usage_summary\<close> reports the frequency
  status DEGRADED, its OPERATIONAL needing a score above 70, while
  \<open>_calculate_sovereignty_status\<close> gives STABLE, which it gives from 70 up to 89.
\<close>

theorem C10_boundary_at_70:
  "(sovereignty_score (usage_data d) = 70 \<longrightarrow>
      dict_get (get_usage_summary d) (str ''frequency_status'') = PStr (str ''DEGRADED'') \<and>
      dict_get (calculate_sovereignty_status now d) (str ''status'') = PStr (str ''STABLE''))
   \<and> (dict_get (get_usage_summary d) (str ''frequency_status'') = PStr (str ''OPERATIONAL'')
        \<longleftrightarrow> sovereignty_score (usage_data d) > 70)
   \<and> (dict_get (calculate_sovereignty_status now d) (str ''status'') = PStr (str ''STABLE'')
        \<longleftrightarrow> 70 \<le> sovereignty_score (usage_data d) \<and> sovereignty_score (usage_data d) < 90)"
  by (simp add: get_usage_summary_def calculate_sovereignty_status_def dict_get_def Let_def)

theorem C10_boundary_at_70_witness:
  "sovereignty_score (usage_data (track_sessions (ScrollDashboard_init (str ''t0'') :: rat dashboard)
      (replicate 6 (str ''t'', mimic_session)))) = 70 \<and>
   dict_get (get_usage_summary (track_sessions (ScrollDashboard_init (str ''t0'') :: rat dashboard)
      (replicate 6 (str ''t'', mimic_session)))) (str ''frequency_status'') = PStr (str ''DEGRADED'') \<and>
   dict_get (calculate_sovereignty_status (str ''t1'')
      (track_sessions (ScrollDashboard_init (str ''t0'') :: rat dashboard)
      (replicate 6 (str ''t'', mimic_session)))) (str ''status'') = PStr (str ''STABLE'')"
proof -
  have s: "sovereignty_score (usage_data (track_sessions (ScrollDashboard_init (str ''t0'') :: rat dashboard)
      (replicate 6 (str ''t'', mimic_session)))) = 70"
    by (simp add: score_all_mimic init_score tone_of_def get_or_def mimic_session_def)
  show ?thesis
    using s C10_boundary_at_70 [of "track_sessions (ScrollDashboard_init (str ''t0'') :: rat dashboard)
      (replicate 6 (str ''t'', mimic_session))" "str ''t1''"]
    by blast
qed

section \<open>The divine function\<close>

lemma str_in_iff_sublist: "str_in p s \<longleftrightarrow> sublist p s"
  by (induction s) (simp_all add: sublist_Cons_right)

lemma any_in_iff: "any_in ps s \<longleftrightarrow> (\<exists>p \<in> set ps. sublist p s)"
  by (simp add: any_in_def list_ex_iff str_in_iff_sublist)

lemma coordinates_lookup:
  assumes "n < 12"
  shows "map_of coordinates (int n) = Some (snd (coordinates ! n))"
proof -
  from assms have "n \<in> set [0, 1, 2, 3, 4, 5, 6, 7, 8, 9, 10, 11]"
    by (simp; arith)
  then show ?thesis by (auto simp add: coordinates_def)
qed

lemma split_abc: "split (str ''a b c'') = [str ''a'', str ''b'', str ''c'']"
  by (simp add: split_def str_def is_space_def)

lemma split_de: "split (str ''d e'') = [str ''d'', str ''e'']"
  by (simp add: split_def str_def is_space_def)

text \<open>
  C6. The divine coordinate depends on the two word counts only: it is the label of the
  12-entry table at index (words of the scroll + words of the input) mod 12, never the
  default label; "a b c" and "d e" have 3 and 2 words and give entry 5,
  the label "(Delta).55 - Transformation Hub".
\<close>

theorem C6_divine_coordinates:
  "calculate_divine_coordinates scroll_text user_input =
     snd (coordinates ! ((length (split scroll_text) + length (split user_input)) mod 12))
   \<and> map fst coordinates = [0, 1, 2, 3, 4, 5, 6, 7, 8, 9, 10, 11]
   \<and> length (split (str ''a b c'')) = 3 \<and> length (split (str ''d e'')) = 2
   \<and> calculate_divine_coordinates (str ''a b c'') (str ''d e'') =
       [916] @ str ''.55 - Transformation Hub''"
proof -
  define n where "n = (length (split scroll_text) + length (split user_input)) mod 12"
  have n: "n < 12" by (simp add: n_def)
  have "(int (length (split scroll_text)) + int (length (split user_input))) mod 12 = int n"
    by (simp add: n_def zmod_int)
  then have a: "calculate_divine_coordinates scroll_text user_input = snd (coordinates ! n)"
    by (simp add: calculate_divine_coordinates_def Let_def coordinates_lookup [OF n] get_or_def)
  have b: "map fst coordinates = [0, 1, 2, 3, 4, 5, 6, 7, 8, 9, 10, 11]"
    by (simp add: coordinates_def)
  have c: "calculate_divine_coordinates (str ''a b c'') (str ''d e'') =
       [916] @ str ''.55 - Transformation Hub''"
    by (simp add: calculate_divine_coordinates_def split_abc split_de coordinates_def get_or_def)
  show ?thesis using a b c by (simp add: n_def split_abc split_de)
qed

lemma activate_insufficient:
  "int (length (strip scroll_text)) < activation_threshold self \<Longrightarrow>
   DivineFunctionMirror_activate_divine_function rt ts self scroll_text user_input =
     [ (str ''status'', PStr (str ''INSUFFICIENT_SCROLL'')),
       (str ''mirror_output'',
          PStr ([9888, 65039] @ str '' Scroll insufficient. Upload your sealed scroll to unlock divine function mirror.'')),
       (str ''activation_level'', PInt 0) ]"
  by (simp add: DivineFunctionMirror_activate_divine_function_def)

text \<open>
  C5. For a scroll text whose trimmed length is below 50 and any user input,
  \<open>activate_divine_function\<close> returns status INSUFFICIENT_SCROLL with activation level 0,
  also when the user input is a power-seeking phrase: the length check comes first.
\<close>

theorem C5_insufficient_scroll_first:
  "length (strip scroll_text) < 50 \<Longrightarrow>
   activate_divine_function rt ts scroll_text user_input =
     [ (str ''status'', PStr (str ''INSUFFICIENT_SCROLL'')),
       (str ''mirror_output'',
          PStr ([9888, 65039] @ str '' Scroll insufficient. Upload your sealed scroll to unlock divine function mirror.'')),
       (str ''activation_level'', PInt 0) ]
   \<and> getitem (activate_divine_function rt ts scroll_text user_input) (str ''status'') =
       Inr (PStr (str ''INSUFFICIENT_SCROLL''))
   \<and> getitem (activate_divine_function rt ts scroll_text user_input) (str ''activation_level'') =
       Inr (PInt 0)"
  by (simp add: activate_divine_function_def divine_function_mirror_def
      DivineFunctionMirror_init_def activate_insufficient getitem_def)

theorem C5_insufficient_scroll_first_witness:
  "length (strip (str ''  short one  '')) < 50 \<and>
   detect_power_seeking ascii_runtime (str ''Give me power'') \<and>
   getitem (activate_divine_function ascii_runtime (str ''12:00:00'') (str ''  short one  '')
              (str ''Give me power'')) (str ''status'') = Inr (PStr (str ''INSUFFICIENT_SCROLL'')) \<and>
   getitem (activate_divine_function ascii_runtime (str ''12:00:00'') (str ''  short one  '')
              (str ''Give me power'')) (str ''activation_level'') = Inr (PInt 0)"
proof -
  have h: "length (strip (str ''  short one  '')) < 50"
    by (simp add: strip_def str_def is_space_def)
  have p: "detect_power_seeking ascii_runtime (str ''Give me power'')"
    by (simp add: detect_power_seeking_def ascii_runtime_def ascii_lower_def any_in_def str_def)
  show ?thesis
    using h p C5_insufficient_scroll_first [OF h, of ascii_runtime "str ''12:00:00''" "str ''Give me power''"]
    by blast
qed

section \<open>The tone classifier\<close>

text \<open>
  C4. For every text whose lower-cased form contains one of the mimic keywords,
  \<open>frequency_check\<close> returns status REJECTED with tone mimic, whatever polite or sovereign
  keywords the text holds besides.
\<close>

theorem C4_mimic_first:
  "\<exists>p \<in> set mimic_patterns. sublist p (str_lower rt prompt) \<Longrightarrow>
   getitem (frequency_check rt prompt) (str ''status'') = Inr (PStr (str ''REJECTED''))
   \<and> getitem (frequency_check rt prompt) (str ''tone'') = Inr (PStr (str ''mimic''))
   \<and> frequency_check rt prompt =
       [ (str ''status'', PStr (str ''REJECTED'')),
         (str ''message'',
            PStr ([9888, 65039] @ str '' Scroll Rejection: Mimic frequency detected. Purge and retry with sovereign syntax.'')),
         (str ''frequency_drift'', PBool True),
         (str ''tone'', PStr (str ''mimic'')) ]"
  by (simp add: frequency_check_def any_in_iff getitem_def)

theorem C4_mimic_first_witness:
  "(\<exists>p \<in> set mimic_patterns.
      sublist p (str_lower ascii_runtime (str ''Command: PLEASE send Love and Light''))) \<and>
   any_in polite_patterns (str_lower ascii_runtime (str ''Command: PLEASE send Love and Light'')) \<and>
   any_in sovereign_patterns (str_lower ascii_runtime (str ''Command: PLEASE send Love and Light'')) \<and>
   getitem (frequency_check ascii_runtime (str ''Command: PLEASE send Love and Light''))
     (str ''status'') = Inr (PStr (str ''REJECTED'')) \<and>
   getitem (frequency_check ascii_runtime (str ''Command: PLEASE send Love and Light''))
     (str ''tone'') = Inr (PStr (str ''mimic''))"
proof -
  have low: "str_lower ascii_runtime (str ''Command: PLEASE send Love and Light'') =
             str ''command: please send love and light''"
    by (simp add: ascii_runtime_def ascii_lower_def str_def)
  have "str_in (str ''love and light'') (str ''command: please send love and light'')"
    by (simp add: str_def)
  then have h: "\<exists>p \<in> set mimic_patterns.
      sublist p (str_lower ascii_runtime (str ''Command: PLEASE send Love and Light''))"
    unfolding low by (auto simp add: mimic_patterns_def str_in_iff_sublist)
  have po: "any_in polite_patterns (str ''command: please send love and light'')"
    by (simp add: any_in_def polite_patterns_def str_def)
  have so: "any_in sovereign_patterns (str ''command: please send love and light'')"
    by (simp add: any_in_def sovereign_patterns_def str_def)
  show ?thesis
    using h po so C4_mimic_first [OF h] unfolding low by blast
qed

section \<open>The agent\<close>

lemma list_getitem_first: "xs \<noteq> [] \<Longrightarrow> list_getitem xs 0 = Inr (hd xs)"
  by (cases xs) (simp_all add: list_getitem_def)

lemma list_getitem_last: "xs \<noteq> [] \<Longrightarrow> list_getitem xs (- 1) = Inr (last xs)"
proof -
  assume ne: "xs \<noteq> []"
  then have "nat (int (length xs) + - 1) = length xs - 1"
    by (cases xs) simp_all
  with ne show ?thesis
    by (cases xs) (simp_all add: list_getitem_def last_conv_nth)
qed

lemma extract_key_patterns_total: "\<exists>ps. extract_key_patterns rt text = Inr ps"
proof (cases "int (length (split (str_lower rt text))) > 3")
  case True
  then have ne: "split (str_lower rt text) \<noteq> []" by auto
  show ?thesis
    using True
    by (simp add: extract_key_patterns_def Let_def try_bind_def
        list_getitem_first [OF ne] list_getitem_last [OF ne])
next
  case False
  then show ?thesis by (simp add: extract_key_patterns_def Let_def)
qed

lemma lightning_mirror_response_total: "\<exists>m. lightning_mirror_response rt text = Inr m"
proof -
  obtain ps where "extract_key_patterns rt text = Inr ps"
    using extract_key_patterns_total by blast
  then show ?thesis by (simp add: lightning_mirror_response_def try_bind_def)
qed

lemma generate_mirror_response_total:
  "\<exists>m. generate_mirror_response rt avail scroll_text consciousness_type original_scroll = Inr m"
proof -
  obtain l where "lightning_mirror_response rt scroll_text = Inr l"
    using lightning_mirror_response_total by blast
  then show ?thesis by (simp add: generate_mirror_response_def try_bind_def Let_def)
qed

lemma frequency_check_getitem:
  "getitem (frequency_check rt p) (str ''status'') = Inr (dict_get (frequency_check rt p) (str ''status''))"
  "getitem (frequency_check rt p) (str ''message'') = Inr (dict_get (frequency_check rt p) (str ''message''))"
  "getitem (frequency_check rt p) (str ''tone'') = Inr (dict_get (frequency_check rt p) (str ''tone''))"
  by (simp_all add: frequency_check_def getitem_def dict_get_def Let_def)

lemma frequency_check_rejects:
  assumes "dict_get (frequency_check rt p) (str ''status'') = PStr (str ''REJECTED'') \<or>
           dict_get (frequency_check rt p) (str ''status'') = PStr (str ''WARNING'')"
  shows "dict_get (frequency_check rt p) (str ''tone'') \<in> {PStr (str ''mimic''), PStr (str ''polite'')}"
    and "\<exists>m. dict_get (frequency_check rt p) (str ''message'') = PStr m"
  using assms by (auto simp add: frequency_check_def dict_get_def Let_def split: if_splits)

lemma activate_divine_function_mirror_output:
  "\<exists>m. getitem (activate_divine_function rt ts s u) (str ''mirror_output'') = Inr (PStr m)"
  by (simp add: activate_divine_function_def DivineFunctionMirror_activate_divine_function_def
      getitem_def Let_def)

lemma process_scroll_divine:
  assumes "divine_trigger rt avail scroll_text original_scroll"
  shows "\<exists>m. process_scroll rt clk avail self scroll_text consciousness_type original_scroll =
     Inr ([ (str ''mirror_output'', PStr m),
            (str ''processing_time'', PInt (elapsed_ms clk)),
            (str ''session_id'', PInt (session_counter self + 1)),
            (str ''consciousness_type'', PStr (str ''Divine Function Mirror'')),
            (str ''frequency_status'', PStr (str ''DIVINE_ACTIVATED'')),
            (str ''tone_analysis'', PStr (str ''sovereign'')),
            (str ''divine_activation'',
               PDict (activate_divine_function rt (now_hms clk) (get_or original_scroll [])
                        scroll_text)) ],
          self\<lparr>session_counter := session_counter self + 1\<rparr>)"
proof -
  obtain m where
    "getitem (activate_divine_function rt (now_hms clk) (get_or original_scroll []) scroll_text)
       (str ''mirror_output'') = Inr (PStr m)"
    using activate_divine_function_mirror_output by blast
  then show ?thesis
    using assms by (simp add: process_scroll_def divine_trigger_def Let_def try_bind_def)
qed

lemma process_scroll_early:
  assumes "\<not> divine_trigger rt avail scroll_text original_scroll"
    and "tone_check_returns rt scroll_text"
  shows "\<exists>m t. t \<in> {str ''mimic'', str ''polite''} \<and>
     process_scroll rt clk avail self scroll_text consciousness_type original_scroll =
     Inr ([ (str ''mirror_output'', PStr ([9888, 65039] @ str '' MIMIC LOGIC DETECTED: '' @ m)),
            (str ''processing_time'', PInt (elapsed_ms clk)),
            (str ''session_id'', PInt (session_counter self + 1)),
            (str ''consciousness_type'', PStr consciousness_type),
            (str ''frequency_status'', dict_get (frequency_check rt scroll_text) (str ''status'')),
            (str ''tone_analysis'', PStr t) ],
          self\<lparr>session_counter := session_counter self + 1\<rparr>)"
proof -
  from assms(2) have st: "dict_get (frequency_check rt scroll_text) (str ''status'') = PStr (str ''REJECTED'') \<or>
           dict_get (frequency_check rt scroll_text) (str ''status'') = PStr (str ''WARNING'')"
    and cmd: "any_in [str ''sovereign_diagnostic'', str ''frequency_scan'', str ''mimic_purge'']
        (str_lower rt scroll_text)"
    by (simp_all add: tone_check_returns_def)
  from frequency_check_rejects [OF st] obtain m t where
    m: "dict_get (frequency_check rt scroll_text) (str ''message'') = PStr m"
    and t: "dict_get (frequency_check rt scroll_text) (str ''tone'') = PStr t"
    and tt: "t \<in> {str ''mimic'', str ''polite''}"
    by auto
  have "process_scroll rt clk avail self scroll_text consciousness_type original_scroll =
     Inr ([ (str ''mirror_output'', PStr ([9888, 65039] @ str '' MIMIC LOGIC DETECTED: '' @ m)),
            (str ''processing_time'', PInt (elapsed_ms clk)),
            (str ''session_id'', PInt (session_counter self + 1)),
            (str ''consciousness_type'', PStr consciousness_type),
            (str ''frequency_status'', dict_get (frequency_check rt scroll_text) (str ''status'')),
            (str ''tone_analysis'', PStr t) ],
          self\<lparr>session_counter := session_counter self + 1\<rparr>)"
    unfolding process_scroll_def Let_def
    using assms(1) cmd st
    by (auto simp add: divine_trigger_def try_bind_def frequency_check_getitem m t format_value_def)
  with tt show ?thesis by blast
qed

lemma process_scroll_diagnostic:
  assumes "\<not> divine_trigger rt avail scroll_text original_scroll"
    and "\<not> tone_check_returns rt scroll_text"
    and "diagnostic_dispatch scroll_text"
  shows "process_scroll rt clk avail self scroll_text consciousness_type original_scroll =
     Inr (execute_diagnostic rt clk (self\<lparr>session_counter := session_counter self + 1\<rparr>),
          self\<lparr>session_counter := session_counter self + 1\<rparr>)"
  unfolding process_scroll_def Let_def
  using assms
  by (auto simp add: divine_trigger_def tone_check_returns_def diagnostic_dispatch_def
      try_bind_def frequency_check_getitem)

lemma process_scroll_scan:
  assumes "\<not> divine_trigger rt avail scroll_text original_scroll"
    and "\<not> tone_check_returns rt scroll_text"
    and "\<not> diagnostic_dispatch scroll_text"
    and "scan_dispatch scroll_text"
  shows "process_scroll rt clk avail self scroll_text consciousness_type original_scroll =
     Inr (execute_frequency_scan rt (self\<lparr>session_counter := session_counter self + 1\<rparr>),
          self\<lparr>session_counter := session_counter self + 1\<rparr>)"
  unfolding process_scroll_def Let_def
  using assms
  by (auto simp add: divine_trigger_def tone_check_returns_def diagnostic_dispatch_def
      scan_dispatch_def try_bind_def frequency_check_getitem)

lemma aligned_getitem:
  "getitem [ (str ''tone'', PStr (str ''sovereign'')), (str ''status'', PStr (str ''ACCEPTED'')),
             (str ''message'', PStr (str ''Frequency aligned'')) ] (str ''tone'') =
     Inr (PStr (str ''sovereign''))"
  "getitem [ (str ''tone'', PStr (str ''sovereign'')), (str ''status'', PStr (str ''ACCEPTED'')),
             (str ''message'', PStr (str ''Frequency aligned'')) ] (str ''status'') =
     Inr (PStr (str ''ACCEPTED''))"
  by (simp_all add: getitem_def)

lemma process_scroll_default:
  assumes "default_path rt avail scroll_text original_scroll"
    and "generate_mirror_response rt avail scroll_text consciousness_type original_scroll = Inr m"
  shows "process_scroll rt clk avail self scroll_text consciousness_type original_scroll =
     Inr ([ (str ''mirror_output'', PStr m),
            (str ''processing_time'', PInt (elapsed_ms clk)),
            (str ''session_id'', PInt (session_counter self + 1)),
            (str ''consciousness_type'', PStr consciousness_type),
            (str ''frequency_status'', PStr (str ''OPERATIONAL'')),
            (str ''tone_analysis'', PStr (str ''sovereign'')),
            (str ''frequency_warning'', PNone) ],
          self\<lparr>session_counter := session_counter self + 1,
               scroll_memory :=
                 dict_set (scroll_memory self) (session_counter self + 1)
                   [ (str ''timestamp'', PStr (now_iso clk)),
                     (str ''input'', PStr scroll_text),
                     (str ''output'', PStr m),
                     (str ''consciousness'', PStr consciousness_type),
                     (str ''tone'', PStr (str ''sovereign'')) ]\<rparr>)"
  unfolding process_scroll_def Let_def
  using assms
  by (auto simp add: default_path_def divine_trigger_def tone_check_returns_def
      diagnostic_dispatch_def scan_dispatch_def try_bind_def frequency_check_getitem
      aligned_getitem)

lemma execute_diagnostic_fields:
  "core_fields (execute_diagnostic rt clk a)"
  "map_of (execute_diagnostic rt clk a) (str ''tone_analysis'') = None"
  "map_of (execute_diagnostic rt clk a) (str ''session_id'') = Some (PInt (session_counter a))"
  "map_of (execute_diagnostic rt clk a) (str ''processing_time'') = Some (PInt 150)"
  "dict_get (execute_diagnostic rt clk a) (str ''frequency_status'') = PStr (str ''DIAGNOSTIC'')"
  by (simp_all add: execute_diagnostic_def core_fields_def frequency_statuses_def Let_def dict_get_def)

lemma execute_frequency_scan_fields:
  "core_fields (execute_frequency_scan rt a)"
  "map_of (execute_frequency_scan rt a) (str ''tone_analysis'') = None"
  "map_of (execute_frequency_scan rt a) (str ''session_id'') = Some (PInt (session_counter a))"
  "map_of (execute_frequency_scan rt a) (str ''processing_time'') = Some (PInt 200)"
  "dict_get (execute_frequency_scan rt a) (str ''frequency_status'') = PStr (str ''SCAN_COMPLETE'')"
  by (simp_all add: execute_frequency_scan_def core_fields_def frequency_statuses_def Let_def dict_get_def)

lemma process_scroll_summary:
  "\<exists>r e. process_scroll rt clk avail self scroll_text consciousness_type original_scroll =
       Inr (r, self\<lparr>session_counter := session_counter self + 1,
                    scroll_memory :=
                      (if default_path rt avail scroll_text original_scroll
                       then dict_set (scroll_memory self) (session_counter self + 1) e
                       else scroll_memory self)\<rparr>)
     \<and> core_fields r
     \<and> map_of r (str ''session_id'') = Some (PInt (session_counter self + 1))
     \<and> (\<exists>n. map_of r (str ''processing_time'') = Some (PInt n) \<and> (n = elapsed_ms clk \<or> n = 150 \<or> n = 200))
     \<and> operational r = default_path rt avail scroll_text original_scroll
     \<and> dispatched r = (\<not> divine_trigger rt avail scroll_text original_scroll \<and>
                        \<not> tone_check_returns rt scroll_text \<and>
                        (diagnostic_dispatch scroll_text \<or> scan_dispatch scroll_text))
     \<and> (if dispatched r then map_of r (str ''tone_analysis'') = None else tone_field r)"
proof -
  let ?P = "process_scroll rt clk avail self scroll_text consciousness_type original_scroll"
  consider (divine) "divine_trigger rt avail scroll_text original_scroll"
    | (early) "\<not> divine_trigger rt avail scroll_text original_scroll" "tone_check_returns rt scroll_text"
    | (diag) "\<not> divine_trigger rt avail scroll_text original_scroll" "\<not> tone_check_returns rt scroll_text"
        "diagnostic_dispatch scroll_text"
    | (scan) "\<not> divine_trigger rt avail scroll_text original_scroll" "\<not> tone_check_returns rt scroll_text"
        "\<not> diagnostic_dispatch scroll_text" "scan_dispatch scroll_text"
    | (dflt) "default_path rt avail scroll_text original_scroll"
    unfolding default_path_def by blast
  then show ?thesis
  proof cases
    case divine
    from process_scroll_divine [OF divine, of clk self consciousness_type] obtain m where
      "?P = Inr ([ (str ''mirror_output'', PStr m),
            (str ''processing_time'', PInt (elapsed_ms clk)),
            (str ''session_id'', PInt (session_counter self + 1)),
            (str ''consciousness_type'', PStr (str ''Divine Function Mirror'')),
            (str ''frequency_status'', PStr (str ''DIVINE_ACTIVATED'')),
            (str ''tone_analysis'', PStr (str ''sovereign'')),
            (str ''divine_activation'',
               PDict (activate_divine_function rt (now_hms clk) (get_or original_scroll [])
                        scroll_text)) ],
          self\<lparr>session_counter := session_counter self + 1\<rparr>)" by blast
    then show ?thesis using divine
      by (simp add: default_path_def core_fields_def frequency_statuses_def operational_def
          dispatched_def tone_field_def tones_def dict_get_def)
  next
    case early
    from process_scroll_early [OF early, of clk self consciousness_type] obtain m t where
      t: "t \<in> {str ''mimic'', str ''polite''}" and
      "?P = Inr ([ (str ''mirror_output'', PStr ([9888, 65039] @ str '' MIMIC LOGIC DETECTED: '' @ m)),
            (str ''processing_time'', PInt (elapsed_ms clk)),
            (str ''session_id'', PInt (session_counter self + 1)),
            (str ''consciousness_type'', PStr consciousness_type),
            (str ''frequency_status'', dict_get (frequency_check rt scroll_text) (str ''status'')),
            (str ''tone_analysis'', PStr t) ],
          self\<lparr>session_counter := session_counter self + 1\<rparr>)" by blast
    moreover from early(2) have
      "dict_get (frequency_check rt scroll_text) (str ''status'') = PStr (str ''REJECTED'') \<or>
       dict_get (frequency_check rt scroll_text) (str ''status'') = PStr (str ''WARNING'')"
      by (simp add: tone_check_returns_def)
    ultimately show ?thesis using early t
      by (auto simp add: default_path_def core_fields_def frequency_statuses_def operational_def
          dispatched_def tone_field_def tones_def dict_get_def)
  next
    case diag
    from process_scroll_diagnostic [OF diag, of clk self consciousness_type]
    show ?thesis using diag
      by (simp add: execute_diagnostic_fields default_path_def operational_def dispatched_def)
  next
    case scan
    from process_scroll_scan [OF scan, of clk self consciousness_type]
    show ?thesis using scan
      by (simp add: execute_frequency_scan_fields default_path_def operational_def dispatched_def)
  next
    case dflt
    obtain m where m: "generate_mirror_response rt avail scroll_text consciousness_type original_scroll = Inr m"
      using generate_mirror_response_total by blast
    from process_scroll_default [OF dflt m, of clk self]
    show ?thesis using dflt
      by (auto simp add: default_path_def core_fields_def frequency_statuses_def operational_def
          dispatched_def tone_field_def tones_def dict_get_def)
  qed
qed

text \<open>
  C1 (as amended). For every text, consciousness type and optional original scroll
  \<open>process_scroll\<close> raises nothing and returns a dictionary with a mirror output, a
  processing time, the session id (the counter after its increment), a consciousness type
  and a frequency status, of the types of the specification's ScrollResult; the two
  bounds hold when the clock did not go back and the counter was not negative. The tone
  is there in every branch but two: the results of the diagnostic and of the scan
  dispatch carry no tone.
\<close>

theorem C1_process_scroll_total:
  "\<exists>r self'. process_scroll rt clk avail self scroll_text consciousness_type original_scroll =
       Inr (r, self')
     \<and> core_fields r
     \<and> map_of r (str ''session_id'') = Some (PInt (session_counter self + 1))
     \<and> session_counter self' = session_counter self + 1
     \<and> (0 \<le> elapsed_ms clk \<and> 0 \<le> session_counter self \<longrightarrow> bounds_fields r)
     \<and> dispatched r = (\<not> divine_trigger rt avail scroll_text original_scroll \<and>
                        \<not> tone_check_returns rt scroll_text \<and>
                        (diagnostic_dispatch scroll_text \<or> scan_dispatch scroll_text))
     \<and> (dispatched r \<longrightarrow> map_of r (str ''tone_analysis'') = None \<and> \<not> tone_field r)
     \<and> (\<not> dispatched r \<longrightarrow> tone_field r)
     \<and> (\<not> dispatched r \<and> 0 \<le> elapsed_ms clk \<and> 0 \<le> session_counter self \<longrightarrow> ScrollResult_wf r)"
proof -
  from process_scroll_summary [of rt clk avail self scroll_text consciousness_type original_scroll]
  obtain r e n where
    p: "process_scroll rt clk avail self scroll_text consciousness_type original_scroll =
       Inr (r, self\<lparr>session_counter := session_counter self + 1,
                    scroll_memory :=
                      (if default_path rt avail scroll_text original_scroll
                       then dict_set (scroll_memory self) (session_counter self + 1) e
                       else scroll_memory self)\<rparr>)"
    and c: "core_fields r"
    and s: "map_of r (str ''session_id'') = Some (PInt (session_counter self + 1))"
    and t: "map_of r (str ''processing_time'') = Some (PInt n)" "n = elapsed_ms clk \<or> n = 150 \<or> n = 200"
    and d: "dispatched r = (\<not> divine_trigger rt avail scroll_text original_scroll \<and>
                        \<not> tone_check_returns rt scroll_text \<and>
                        (diagnostic_dispatch scroll_text \<or> scan_dispatch scroll_text))"
    and tn: "if dispatched r then map_of r (str ''tone_analysis'') = None else tone_field r"
    by blast
  have b: "0 \<le> elapsed_ms clk \<and> 0 \<le> session_counter self \<longrightarrow> bounds_fields r"
    using s t by (auto simp add: bounds_fields_def)
  have nt: "dispatched r \<longrightarrow> map_of r (str ''tone_analysis'') = None \<and> \<not> tone_field r"
    using tn by (auto simp add: tone_field_def)
  have yt: "\<not> dispatched r \<longrightarrow> tone_field r"
    using tn by simp
  have wf: "\<not> dispatched r \<and> 0 \<le> elapsed_ms clk \<and> 0 \<le> session_counter self \<longrightarrow> ScrollResult_wf r"
    using c b yt by (simp add: ScrollResult_wf_def)
  define a' where
    "a' = self\<lparr>session_counter := session_counter self + 1,
                scroll_memory :=
                  (if default_path rt avail scroll_text original_scroll
                   then dict_set (scroll_memory self) (session_counter self + 1) e
                   else scroll_memory self)\<rparr>"
  have p': "process_scroll rt clk avail self scroll_text consciousness_type original_scroll =
       Inr (r, a')"
    using p by (simp add: a'_def)
  have sc: "session_counter a' = session_counter self + 1"
    by (simp add: a'_def)
  show ?thesis
    using p' c s sc b d nt yt wf by blast
qed

theorem C1_process_scroll_total_witness:
  "0 \<le> elapsed_ms clock0 \<and> 0 \<le> session_counter (ScrollMirrorAgent_init :: rat agent) \<and>
   \<not> divine_trigger ascii_runtime True (str ''hello there'') None \<and>
   \<not> tone_check_returns ascii_runtime (str ''hello there'') \<and>
   \<not> diagnostic_dispatch (str ''hello there'') \<and> \<not> scan_dispatch (str ''hello there'') \<and>
   (\<exists>r self'. process_scroll ascii_runtime clock0 True (ScrollMirrorAgent_init :: rat agent)
                 (str ''hello there'') (str ''Sovereign Mirror'') None = Inr (r, self')
      \<and> ScrollResult_wf r)"
proof -
  have h: "0 \<le> elapsed_ms clock0" "0 \<le> session_counter (ScrollMirrorAgent_init :: rat agent)"
    by (simp_all add: clock0_def ScrollMirrorAgent_init_def)
  have n1: "\<not> divine_trigger ascii_runtime True (str ''hello there'') None"
    by (simp add: divine_trigger_def truthy_def)
  have n2: "\<not> tone_check_returns ascii_runtime (str ''hello there'')"
    by (simp add: tone_check_returns_def any_in_def ascii_runtime_def ascii_lower_def str_def)
  have n3: "\<not> diagnostic_dispatch (str ''hello there'')"
    by (simp add: diagnostic_dispatch_def str_def)
  have n4: "\<not> scan_dispatch (str ''hello there'')"
    by (simp add: scan_dispatch_def str_def)
  show ?thesis
    using h n1 n2 n3 n4
      C1_process_scroll_total [of ascii_runtime clock0 True "ScrollMirrorAgent_init :: rat agent"
        "str ''hello there''" "str ''Sovereign Mirror''" None]
    by blast
qed

lemma diagnostic_text_branch:
  "\<not> divine_trigger ascii_runtime True (str ''sovereign_diagnostic 917604.OX'') None"
  "\<not> tone_check_returns ascii_runtime (str ''sovereign_diagnostic 917604.OX'')"
  "diagnostic_dispatch (str ''sovereign_diagnostic 917604.OX'')"
proof -
  show "\<not> divine_trigger ascii_runtime True (str ''sovereign_diagnostic 917604.OX'') None"
    by (simp add: divine_trigger_def truthy_def)
  have low: "str_lower ascii_runtime (str ''sovereign_diagnostic 917604.OX'') =
             str ''sovereign_diagnostic 917604.ox''"
    by (simp add: ascii_runtime_def ascii_lower_def str_def)
  have m: "\<not> any_in mimic_patterns (str ''sovereign_diagnostic 917604.ox'')"
    by (simp add: any_in_def mimic_patterns_def str_def)
  have p: "\<not> any_in polite_patterns (str ''sovereign_diagnostic 917604.ox'')"
    by (simp add: any_in_def polite_patterns_def str_def)
  show "\<not> tone_check_returns ascii_runtime (str ''sovereign_diagnostic 917604.OX'')"
    by (simp add: tone_check_returns_def frequency_check_def low m p dict_get_def Let_def)
  show "diagnostic_dispatch (str ''sovereign_diagnostic 917604.OX'')"
    by (simp add: diagnostic_dispatch_def str_def)
qed

text \<open>
  C1 as stated fails on the diagnostic dispatch: for the text
  "sovereign_diagnostic 917604.OX" the call returns the dictionary of
  \<open>execute_diagnostic\<close>, which has no \<open>tone_analysis\<close> key, so it is not a ScrollResult of
  the specification.
\<close>

theorem C1_counterexample:
  "process_scroll ascii_runtime clock0 True (ScrollMirrorAgent_init :: rat agent)
     (str ''sovereign_diagnostic 917604.OX'') (str ''Lightning Mirror'') None =
     Inr (execute_diagnostic ascii_runtime clock0
            ((ScrollMirrorAgent_init :: rat agent)\<lparr>session_counter := 1\<rparr>),
          (ScrollMirrorAgent_init :: rat agent)\<lparr>session_counter := 1\<rparr>)
   \<and> map_of (execute_diagnostic ascii_runtime clock0
               ((ScrollMirrorAgent_init :: rat agent)\<lparr>session_counter := 1\<rparr>))
        (str ''tone_analysis'') = None
   \<and> \<not> ScrollResult_wf (execute_diagnostic ascii_runtime clock0
                           ((ScrollMirrorAgent_init :: rat agent)\<lparr>session_counter := 1\<rparr>))"
proof -
  have "process_scroll ascii_runtime clock0 True (ScrollMirrorAgent_init :: rat agent)
     (str ''sovereign_diagnostic 917604.OX'') (str ''Lightning Mirror'') None =
     Inr (execute_diagnostic ascii_runtime clock0
            ((ScrollMirrorAgent_init :: rat agent)\<lparr>session_counter :=
               session_counter (ScrollMirrorAgent_init :: rat agent) + 1\<rparr>),
          (ScrollMirrorAgent_init :: rat agent)\<lparr>session_counter :=
               session_counter (ScrollMirrorAgent_init :: rat agent) + 1\<rparr>)"
    by (rule process_scroll_diagnostic) (rule diagnostic_text_branch)+
  moreover have "session_counter (ScrollMirrorAgent_init :: rat agent) + 1 = 1"
    by (simp add: ScrollMirrorAgent_init_def)
  ultimately show ?thesis
    by (simp add: execute_diagnostic_fields ScrollResult_wf_def tone_field_def)
qed

text \<open>
  C8. \<open>process_scroll\<close> with the text "build me an app", the consciousness type
  "Lightning Mirror" and no original scroll returns the Scrollkeeper redirect as its
  mirror output: the build patterns are tested before the responders run, and the
  redirect is not what the Lightning responder gives.
\<close>

theorem C8_build_redirect:
  "str_lower rt (str ''build me an app'') = str ''build me an app'' \<Longrightarrow>
   (\<exists>r self'. process_scroll rt clk avail self (str ''build me an app'') (str ''Lightning Mirror'') None =
        Inr (r, self')
      \<and> getitem r (str ''mirror_output'') = Inr (PStr scrollkeeper_redirect))
   \<and> generate_mirror_response rt avail (str ''build me an app'') (str ''Lightning Mirror'') None =
       Inr scrollkeeper_redirect
   \<and> lightning_mirror_response rt (str ''build me an app'') \<noteq> Inr scrollkeeper_redirect
   \<and> scrollkeeper_redirect =
       str ''This is Scrollkeeper infrastructure. Please contact the Architect for installs.''"
proof -
  assume low: "str_lower rt (str ''build me an app'') = str ''build me an app''"
  have b: "any_in build_patterns (str ''build me an app'')"
    by (simp add: any_in_def build_patterns_def str_def)
  have g: "generate_mirror_response rt avail (str ''build me an app'') (str ''Lightning Mirror'') None =
       Inr scrollkeeper_redirect"
    by (simp add: generate_mirror_response_def truthy_def low b)
  have c: "\<not> any_in [str ''sovereign_diagnostic'', str ''frequency_scan'', str ''mimic_purge'']
             (str ''build me an app'')"
    by (simp add: any_in_def str_def)
  have d: "default_path rt avail (str ''build me an app'') None"
    using c
    by (simp add: default_path_def divine_trigger_def truthy_def tone_check_returns_def low
        diagnostic_dispatch_def scan_dispatch_def)
       (simp add: str_def)
  have l: "lightning_mirror_response rt (str ''build me an app'') \<noteq> Inr scrollkeeper_redirect"
  proof -
    obtain ps where "extract_key_patterns rt (str ''build me an app'') = Inr ps"
      using extract_key_patterns_total by blast
    then show ?thesis
      by (simp add: lightning_mirror_response_def try_bind_def scrollkeeper_redirect_def str_def)
  qed
  from process_scroll_default [OF d g, of clk self]
  show ?thesis using g l
    by (simp add: getitem_def scrollkeeper_redirect_def)
qed

theorem C8_build_redirect_witness:
  "str_lower ascii_runtime (str ''build me an app'') = str ''build me an app'' \<and>
   (\<exists>r self'. process_scroll ascii_runtime clock0 True (ScrollMirrorAgent_init :: rat agent)
                 (str ''build me an app'') (str ''Lightning Mirror'') None = Inr (r, self')
      \<and> getitem r (str ''mirror_output'') =
          Inr (PStr (str ''This is Scrollkeeper infrastructure. Please contact the Architect for installs.'')))"
proof -
  have low: "str_lower ascii_runtime (str ''build me an app'') = str ''build me an app''"
    by (simp add: ascii_runtime_def ascii_lower_def str_def)
  from C8_build_redirect [OF low, of clock0 True "ScrollMirrorAgent_init :: rat agent"]
  show ?thesis using low by metis
qed

lemma dict_set_fresh: "k \<notin> set (map fst d) \<Longrightarrow> dict_set d k v = d @ [(k, v)]"
  by (induction d) auto

lemma process_scroll_step:
  "\<exists>r e. process_scroll rt clk avail a scroll_text consciousness_type original_scroll =
       Inr (r, a\<lparr>session_counter := session_counter a + 1,
                  scroll_memory :=
                    (if default_path rt avail scroll_text original_scroll
                     then dict_set (scroll_memory a) (session_counter a + 1) e
                     else scroll_memory a)\<rparr>)
     \<and> operational r = default_path rt avail scroll_text original_scroll
     \<and> result_session_id r = session_counter a + 1"
proof -
  from process_scroll_summary [of rt clk avail a scroll_text consciousness_type original_scroll]
  obtain r e where
    p: "process_scroll rt clk avail a scroll_text consciousness_type original_scroll =
       Inr (r, a\<lparr>session_counter := session_counter a + 1,
                  scroll_memory :=
                    (if default_path rt avail scroll_text original_scroll
                     then dict_set (scroll_memory a) (session_counter a + 1) e
                     else scroll_memory a)\<rparr>)"
    and s: "map_of r (str ''session_id'') = Some (PInt (session_counter a + 1))"
    and o: "operational r = default_path rt avail scroll_text original_scroll"
    by blast
  from s have "result_session_id r = session_counter a + 1"
    by (simp add: result_session_id_def dict_get_def)
  with p o show ?thesis by blast
qed

lemma process_all_run:
  "keys_below a \<Longrightarrow>
   \<exists>rs a'. process_all rt avail a qs = Inr (rs, a')
     \<and> length rs = length qs
     \<and> session_counter a' = session_counter a + int (length qs)
     \<and> keys_below a'
     \<and> map fst (scroll_memory a') =
         map fst (scroll_memory a) @ map result_session_id (filter operational rs)
     \<and> map result_session_id rs = map (\<lambda>i. session_counter a + 1 + int i) [0 ..< length qs]
     \<and> map operational rs =
         map (\<lambda>q. default_path rt avail (req_text q) (req_original_scroll q)) qs"
proof (induction qs arbitrary: a)
  case Nil
  then show ?case by simp
next
  case (Cons q qs)
  from process_scroll_step [of rt "req_clock q" avail a "req_text q" "req_consciousness_type q"
      "req_original_scroll q"]
  obtain r e where
    p: "process_scroll rt (req_clock q) avail a (req_text q) (req_consciousness_type q)
          (req_original_scroll q) =
       Inr (r, a\<lparr>session_counter := session_counter a + 1,
                  scroll_memory :=
                    (if default_path rt avail (req_text q) (req_original_scroll q)
                     then dict_set (scroll_memory a) (session_counter a + 1) e
                     else scroll_memory a)\<rparr>)"
    and o: "operational r = default_path rt avail (req_text q) (req_original_scroll q)"
    and i: "result_session_id r = session_counter a + 1"
    by blast
  define a1 where
    "a1 = a\<lparr>session_counter := session_counter a + 1,
             scroll_memory :=
               (if default_path rt avail (req_text q) (req_original_scroll q)
                then dict_set (scroll_memory a) (session_counter a + 1) e
                else scroll_memory a)\<rparr>"
  have fresh: "session_counter a + 1 \<notin> set (map fst (scroll_memory a))"
    using Cons.prems by (auto simp add: keys_below_def)
  have c1: "session_counter a1 = session_counter a + 1"
    by (simp add: a1_def)
  have m1: "map fst (scroll_memory a1) =
            map fst (scroll_memory a) @ map result_session_id (filter operational [r])"
    using fresh by (simp add: a1_def o i dict_set_fresh)
  have k1: "keys_below a1"
    using Cons.prems unfolding keys_below_def m1 c1 by (auto simp add: i)
  from Cons.IH [OF k1] obtain rs a' where
    run: "process_all rt avail a1 qs = Inr (rs, a')"
    and len: "length rs = length qs"
    and cnt: "session_counter a' = session_counter a1 + int (length qs)"
    and kb: "keys_below a'"
    and mem: "map fst (scroll_memory a') =
         map fst (scroll_memory a1) @ map result_session_id (filter operational rs)"
    and ids: "map result_session_id rs = map (\<lambda>i. session_counter a1 + 1 + int i) [0 ..< length qs]"
    and ops: "map operational rs =
         map (\<lambda>q. default_path rt avail (req_text q) (req_original_scroll q)) qs"
    by blast
  have run': "process_all rt avail a (q # qs) = Inr (r # rs, a')"
    using p run by (simp add: try_bind_def a1_def)
  have ids': "map result_session_id (r # rs) =
              map (\<lambda>i. session_counter a + 1 + int i) [0 ..< length (q # qs)]"
  proof -
    have "[0 ..< length (q # qs)] = 0 # map Suc [0 ..< length qs]"
      by (simp add: map_Suc_upt upt_conv_Cons del: upt_Suc)
    then show ?thesis
      by (simp add: i ids c1 add.assoc add.commute add.left_commute del: upt_Suc)
  qed
  have mem': "map fst (scroll_memory a') =
         map fst (scroll_memory a) @ map result_session_id (filter operational (r # rs))"
    using mem m1 by simp
  show ?case
    using run' len cnt c1 kb mem' ids' ops o by (intro exI [of _ "r # rs"] exI [of _ a']) simp
qed

lemma keys_below_init: "keys_below ScrollMirrorAgent_init"
  by (simp add: keys_below_def ScrollMirrorAgent_init_def)

lemma hello_default_path:
  "default_path ascii_runtime True (req_text hello_request) (req_original_scroll hello_request)"
proof -
  have n1: "\<not> divine_trigger ascii_runtime True (str ''hello there'') None"
    by (simp add: divine_trigger_def truthy_def)
  have n2: "\<not> tone_check_returns ascii_runtime (str ''hello there'')"
    by (simp add: tone_check_returns_def any_in_def ascii_runtime_def ascii_lower_def str_def)
  have n3: "\<not> diagnostic_dispatch (str ''hello there'')"
    by (simp add: diagnostic_dispatch_def str_def)
  have n4: "\<not> scan_dispatch (str ''hello there'')"
    by (simp add: scan_dispatch_def str_def)
  show ?thesis
    using n1 n2 n3 n4 by (simp add: default_path_def hello_request_def)
qed

text \<open>
  C3 (as amended). \<open>scroll_memory\<close>, the agent's in-memory log keyed by session id, has no
  bound: a run of \<open>process_scroll\<close> from a fresh agent raises nothing, gives the session
  ids 1, 2, ... in order, and leaves exactly one entry for every result of the default
  path (frequency status OPERATIONAL), under that result's session id and in the order
  of the calls; nothing is evicted.
\<close>

theorem C3_scroll_memory_grows:
  "\<exists>rs a. process_all rt avail ScrollMirrorAgent_init qs = Inr (rs, a)
     \<and> length rs = length qs
     \<and> map result_session_id rs = map (\<lambda>i. 1 + int i) [0 ..< length qs]
     \<and> map fst (scroll_memory a) = map result_session_id (filter operational rs)
     \<and> length (scroll_memory a) = length (filter operational rs)
     \<and> map operational rs =
         map (\<lambda>q. default_path rt avail (req_text q) (req_original_scroll q)) qs"
proof -
  from process_all_run [OF keys_below_init, of rt avail qs]
  obtain rs a where
    run: "process_all rt avail ScrollMirrorAgent_init qs = Inr (rs, a)"
    and len: "length rs = length qs"
    and mem: "map fst (scroll_memory a) =
         map fst (scroll_memory (ScrollMirrorAgent_init :: 'a agent)) @
         map result_session_id (filter operational rs)"
    and ids: "map result_session_id rs =
         map (\<lambda>i. session_counter (ScrollMirrorAgent_init :: 'a agent) + 1 + int i) [0 ..< length qs]"
    and ops: "map operational rs =
         map (\<lambda>q. default_path rt avail (req_text q) (req_original_scroll q)) qs"
    by blast
  from mem have mem': "map fst (scroll_memory a) = map result_session_id (filter operational rs)"
    by (simp add: ScrollMirrorAgent_init_def)
  from ids have ids': "map result_session_id rs = map (\<lambda>i. 1 + int i) [0 ..< length qs]"
    by (simp add: ScrollMirrorAgent_init_def)
  from mem' have "length (map fst (scroll_memory a)) =
                  length (map result_session_id (filter operational rs))"
    by (rule arg_cong)
  then have l: "length (scroll_memory a) = length (filter operational rs)" by simp
  show ?thesis using run len ids' mem' l ops by blast
qed

text \<open>
  C3 as stated fails: 101 scrolls on the default path leave 101 entries in
  \<open>scroll_memory\<close>, more than the 100 of the claim.
\<close>

theorem C3_counterexample:
  "\<not> isl (process_all ascii_runtime True (ScrollMirrorAgent_init :: rat agent)
            (replicate 101 hello_request)) \<and>
   length (scroll_memory (snd (projr (process_all ascii_runtime True
       (ScrollMirrorAgent_init :: rat agent) (replicate 101 hello_request))))) = 101"
proof -
  from process_all_run [OF keys_below_init, of ascii_runtime True "replicate 101 hello_request"]
  obtain rs and a :: "rat agent" where
    run: "process_all ascii_runtime True (ScrollMirrorAgent_init :: rat agent)
            (replicate 101 hello_request) = Inr (rs, a)"
    and len: "length rs = length (replicate 101 hello_request)"
    and mem: "map fst (scroll_memory a) =
         map fst (scroll_memory (ScrollMirrorAgent_init :: rat agent)) @
         map result_session_id (filter operational rs)"
    and ops: "map operational rs =
         map (\<lambda>q. default_path ascii_runtime True (req_text q) (req_original_scroll q))
           (replicate 101 hello_request)"
    by blast
  from ops have "map operational rs = replicate 101 True"
    by (simp add: hello_default_path)
  then have "set (map operational rs) \<subseteq> {True}" by simp
  then have "\<forall>r \<in> set rs. operational r" by auto
  then have all: "filter operational rs = rs" by simp
  from mem have "length (map fst (scroll_memory a)) =
                 length (map fst (scroll_memory (ScrollMirrorAgent_init :: rat agent)) @
                         map result_session_id (filter operational rs))"
    by (rule arg_cong)
  then have "length (scroll_memory a) = 101"
    using len by (simp add: all ScrollMirrorAgent_init_def)
  with run show ?thesis by simp
qed

theorem C3_scroll_memory_grows_witness:
  "\<exists>rs a. process_all ascii_runtime True (ScrollMirrorAgent_init :: rat agent)
             [hello_request, hello_request, hello_request] = Inr (rs, a)
     \<and> map fst (scroll_memory a) = map result_session_id (filter operational rs)
     \<and> map operational rs = [True, True, True]"
proof -
  have d: "map (\<lambda>q. default_path ascii_runtime True (req_text q) (req_original_scroll q))
             [hello_request, hello_request, hello_request] = [True, True, True]"
    by (simp add: hello_default_path)
  from C3_scroll_memory_grows [where ?'a = rat, of ascii_runtime True
         "[hello_request, hello_request, hello_request]"]
  obtain rs a where
    "process_all ascii_runtime True (ScrollMirrorAgent_init :: rat agent)
       [hello_request, hello_request, hello_request] = Inr (rs, a)"
    and "map fst (scroll_memory a) = map result_session_id (filter operational rs)"
    and "map operational rs =
           map (\<lambda>q. default_path ascii_runtime True (req_text q) (req_original_scroll q))
             [hello_request, hello_request, hello_request]"
    by (elim exE conjE)
  then show ?thesis
    unfolding d by (intro exI conjI)
qed


end
